theory Spec2Isabelle
  imports Main
begin

section \<open>ClassMate PDF chat: the retrieval-augmented question-answering service\<close>

text \<open>
  A shallow embedding of \<^verbatim>\<open>server/services/pdfService.js\<close>,
  \<^verbatim>\<open>server/routes/pdfChat.js\<close> and the Mongoose schema
  \<^verbatim>\<open>server/models/pdfDocument.js\<close>.

  JavaScript numbers that count chunks, pages and milliseconds are natural numbers here
  (all of them stay far below \<open>2^53\<close>, where the doubles are exact).  A property that
  may be \<^verbatim>\<open>undefined\<close> is an \<open>option\<close>.  A thrown \<^verbatim>\<open>Error\<close> is the left
  summand of a sum type.  The module-level \<^verbatim>\<open>Map\<close>, the \<^verbatim>\<open>NodeCache\<close>, the
  database collection and the files of the uploads directory are fields of an explicit
  state record that every operation takes and returns.  The external collaborators
  (PDF parser, text splitter, embedding service, generation model) are fields of an
  environment record.  In the definitions of the functions a call of an asynchronous
  function runs to completion; the last part of the model cuts \<^verbatim>\<open>chatWithPdf\<close> at
  its awaits and lets requests interleave there.
\<close>

subsection \<open>Errors\<close>

datatype error = Error (message: string)

subsection \<open>Paths (the POSIX functions of Node's \<^verbatim>\<open>path\<close> module)\<close>

definition startsWith :: "string \<Rightarrow> string \<Rightarrow> bool" where
  "startsWith s p = (take (length p) s = p)"

fun splitOn :: "char \<Rightarrow> string \<Rightarrow> string list" where
  "splitOn c [] = [[]]"
| "splitOn c (x # xs) =
     (if x = c then [] # splitOn c xs
      else (case splitOn c xs of [] \<Rightarrow> [[x]] | seg # segs \<Rightarrow> (x # seg) # segs))"

fun joinWith :: "string \<Rightarrow> string list \<Rightarrow> string" where
  "joinWith sep [] = []"
| "joinWith sep [x] = x"
| "joinWith sep (x # y # ys) = x @ sep @ joinWith sep (y # ys)"

text \<open>
  \<^verbatim>\<open>normalizeString\<close>: the segments are pushed on a stack (kept reversed here); empty
  segments and \<^verbatim>\<open>.\<close> are skipped, \<^verbatim>\<open>..\<close> pops a segment that is not itself
  \<^verbatim>\<open>..\<close>, and is kept only where the path may climb above its start.
\<close>

fun normalizeSegments :: "bool \<Rightarrow> string list \<Rightarrow> string list \<Rightarrow> string list" where
  "normalizeSegments allowAboveRoot res [] = rev res"
| "normalizeSegments allowAboveRoot res (seg # segs) =
     (if seg = [] \<or> seg = ''.'' then normalizeSegments allowAboveRoot res segs
      else if seg = ''..'' then
        (case res of
           [] \<Rightarrow> normalizeSegments allowAboveRoot (if allowAboveRoot then [''..''] else []) segs
         | lastSeg # rest \<Rightarrow>
             if lastSeg = ''..''
             then normalizeSegments allowAboveRoot
                    (if allowAboveRoot then ''..'' # res else res) segs
             else normalizeSegments allowAboveRoot rest segs)
      else normalizeSegments allowAboveRoot (seg # res) segs)"

definition isAbsolute :: "string \<Rightarrow> bool" where
  "isAbsolute p = (p \<noteq> [] \<and> hd p = CHR ''/'')"

definition path_normalize :: "string \<Rightarrow> string" where
  "path_normalize p =
     (if p = [] then ''.''
      else
        let trailingSeparator = (last p = CHR ''/'');
            q = joinWith ''/'' (normalizeSegments (\<not> isAbsolute p) [] (splitOn (CHR ''/'') p))
        in if q = [] then
             (if isAbsolute p then ''/'' else if trailingSeparator then ''./'' else ''.'')
           else
             (let q' = (if trailingSeparator then q @ ''/'' else q)
              in if isAbsolute p then CHR ''/'' # q' else q'))"

definition path_join :: "string \<Rightarrow> string \<Rightarrow> string" where
  "path_join a b =
     (let joined = joinWith ''/'' (filter (\<lambda>s. s \<noteq> []) [a, b])
      in if joined = [] then ''.'' else path_normalize joined)"

definition dropTrailing :: "char \<Rightarrow> string \<Rightarrow> string" where
  "dropTrailing c p = rev (dropWhile (\<lambda>x. x = c) (rev p))"

definition path_basename :: "string \<Rightarrow> string" where
  "path_basename p = rev (takeWhile (\<lambda>x. x \<noteq> CHR ''/'') (rev (dropTrailing (CHR ''/'') p)))"

subsection \<open>Chunks\<close>

text \<open>
  The metadata object of a chunk.  \<^verbatim>\<open>processPdf\<close> writes \<^verbatim>\<open>source\<close> and
  \<^verbatim>\<open>pageNumber\<close>, \<^verbatim>\<open>processChunksInBatches\<close> adds \<^verbatim>\<open>page\<close>.
\<close>

record metadata =
  source :: "string option"
  pageNumber :: "nat option"
  page :: "nat option"

record chunk =
  pageContent :: string
  metadata :: metadata

text \<open>\<^verbatim>\<open>Array.prototype.slice(i, j)\<close> for \<open>0 \<le> i \<le> j\<close>.\<close>

definition slice :: "'a list \<Rightarrow> nat \<Rightarrow> nat \<Rightarrow> 'a list" where
  "slice xs i j = take (j - i) (drop i xs)"

text \<open>The body of one batch: \<^verbatim>\<open>batch.map(async (chunk, index) => ...)\<close>.\<close>

definition batchResults :: "nat \<Rightarrow> chunk list \<Rightarrow> chunk list" where
  "batchResults i batch =
     map (\<lambda>(index, chunk).
            \<lparr>pageContent = pageContent chunk,
             metadata = (metadata chunk)\<lparr>page := Some ((i + index) div 2 + 1)\<rparr>\<rparr>)
         (enumerate 0 batch)"

text \<open>
  The loop \<^verbatim>\<open>for (let i = 0; i < chunks.length; i += batchSize)\<close>.  With
  \<open>batchSize = 0\<close> and a non-empty input it never ends, which is the value \<open>None\<close>.
\<close>

partial_function (option) batchLoop ::
  "chunk list \<Rightarrow> nat \<Rightarrow> nat \<Rightarrow> chunk list \<Rightarrow> chunk list option" where
  "batchLoop chunks batchSize i results =
     (if i < length chunks
      then batchLoop chunks batchSize (i + batchSize)
             (results @ batchResults i (slice chunks i (i + batchSize)))
      else Some results)"

definition processChunksInBatches :: "chunk list \<Rightarrow> nat \<Rightarrow> chunk list option" where
  "processChunksInBatches chunks batchSize = batchLoop chunks batchSize 0 []"

subsection \<open>External collaborators\<close>

text \<open>
  What \<^verbatim>\<open>pdf-parse\<close> returns: \<^verbatim>\<open>data.text\<close> and \<^verbatim>\<open>data.numpages\<close>.
\<close>

record pdfData =
  pdf_text :: string
  numpages :: nat

text \<open>
  An embedding is an array of numbers computed by a remote service; the model takes the
  vectors and the similarity score of two vectors as given, and uses only the order of
  the scores.
\<close>

type_synonym vec = "int list"

text \<open>
  The environment of the service:
  \<^item> \<open>cwd\<close>: \<^verbatim>\<open>process.cwd()\<close>;
  \<^item> \<open>mkdir\<close>: \<^verbatim>\<open>fs.mkdir(dir, {recursive: true})\<close>, \<open>Some err\<close> when it throws;
  \<^item> \<open>pdfParse\<close>: \<^verbatim>\<open>pdfParse(buffer, PDF_OPTIONS)\<close>;
  \<^item> \<open>createDocuments\<close>: the texts of the documents that
    \<^verbatim>\<open>RecursiveCharacterTextSplitter.createDocuments\<close> returns, in order;
  \<^item> \<open>embedDocuments\<close>, \<open>embedQuery\<close>: the HuggingFace embedding service;
  \<^item> \<open>similarity\<close>: the similarity score of the query vector and a stored vector;
  \<^item> \<open>invoke\<close>: the prompt template piped into the Groq model and the string parser,
    as a function of the context and the question.  Its first argument is the number of
    generation calls made before, so that two calls with the same prompt may answer
    differently.
\<close>

record env =
  cwd :: string
  mkdir :: "string \<Rightarrow> error option"
  pdfParse :: "string \<Rightarrow> error + pdfData option"
  createDocuments :: "string \<Rightarrow> string list"
  embedDocuments :: "string list \<Rightarrow> error + vec list"
  embedQuery :: "string \<Rightarrow> error + vec"
  similarity :: "vec \<Rightarrow> vec \<Rightarrow> int"
  invoke :: "nat \<Rightarrow> string \<Rightarrow> string \<Rightarrow> error + string"

subsection \<open>The in-memory vector store\<close>

text \<open>
  \<^verbatim>\<open>MemoryVectorStore\<close>: the stored documents, each with its embedding.
  \<^verbatim>\<open>fromDocuments\<close> embeds the texts of all documents in one pass and pairs
  vector \<open>idx\<close> with document \<open>idx\<close>; reading a document beyond the end of the
  array throws.
\<close>

type_synonym vectorStore = "(chunk \<times> vec) list"

definition fromDocuments :: "env \<Rightarrow> chunk list \<Rightarrow> error + vectorStore" where
  "fromDocuments env docs =
     (case embedDocuments env (map pageContent docs) of
        Inl e \<Rightarrow> Inl e
      | Inr vectors \<Rightarrow>
          if length docs < length vectors
          then Inl (Error ''Cannot read properties of undefined'')
          else Inr (zip docs vectors))"

text \<open>
  \<^verbatim>\<open>similaritySearch(query, k)\<close>: embed the query, order the stored documents by
  descending similarity (documents of equal score keep their stored order), return the
  first \<open>k\<close>.
\<close>

definition similaritySearch :: "env \<Rightarrow> vectorStore \<Rightarrow> string \<Rightarrow> nat \<Rightarrow> error + chunk list" where
  "similaritySearch env vectorStore query k =
     (case embedQuery env query of
        Inl e \<Rightarrow> Inl e
      | Inr q \<Rightarrow> Inr (map fst (take k (sort_key (\<lambda>(doc, v). - similarity env q v) vectorStore))))"

subsection \<open>Results, chat messages and stored documents\<close>

text \<open>An entry of \<^verbatim>\<open>sources\<close>: the object \<^verbatim>\<open>{page, content}\<close>.\<close>

record sourceEntry =
  sourcePage :: "nat option"
  sourceContent :: string

text \<open>The object \<^verbatim>\<open>{answer, sourcePages, sources}\<close> that \<^verbatim>\<open>chatWithPdf\<close> returns.\<close>

record result =
  answer :: string
  sourcePages :: "nat option list"
  sources :: "sourceEntry list"

datatype role = User | Assistant

text \<open>
  A chat turn as the route builds it; a field the object does not have is \<open>None\<close>.
  Stored messages have the same type: \<open>castMessage\<close> below makes a stored message
  of a turn.
\<close>

record message =
  role :: role
  content :: string
  messageSourcePages :: "nat option list option"
  messageSources :: "sourceEntry list option"
  timestamp :: nat

text \<open>
  \<^verbatim>\<open>messageSchema\<close> declares \<^verbatim>\<open>role\<close>, \<^verbatim>\<open>content\<close>, \<^verbatim>\<open>sourcePages\<close> and
  \<^verbatim>\<open>timestamp\<close>.  Mongoose schemas are strict by default: a field that the schema
  does not declare is dropped when the object is cast to a subdocument, and an array
  path that is not given is the empty array.
\<close>

definition castMessage :: "message \<Rightarrow> message" where
  "castMessage m =
     m\<lparr>messageSourcePages :=
         Some (case messageSourcePages m of None \<Rightarrow> [] | Some ps \<Rightarrow> ps),
       messageSources := None\<rparr>"

text \<open>
  \<^verbatim>\<open>documentChunkSchema\<close> declares \<^verbatim>\<open>pageContent\<close>, \<^verbatim>\<open>metadata.page\<close>,
  \<^verbatim>\<open>metadata.location.pageNumber\<close> and \<^verbatim>\<open>embedding\<close>; of the metadata that
  \<^verbatim>\<open>processPdf\<close> produces, only \<^verbatim>\<open>page\<close> is declared.
\<close>

definition castChunk :: "chunk \<Rightarrow> chunk" where
  "castChunk c =
     \<lparr>pageContent = pageContent c,
      metadata = \<lparr>source = None, pageNumber = None, page = page (metadata c)\<rparr>\<rparr>"

record pdfDocument =
  doc_id :: string
  userId :: string
  filename :: string
  originalName :: string
  pageCount :: nat
  documentChunks :: "chunk list"
  chatHistory :: "message list"
  createdAt :: nat

subsection \<open>The state of the server process\<close>

text \<open>
  \<^item> \<open>vectorStores\<close>: the module-level \<^verbatim>\<open>Map\<close> from file name to vector store;
  \<^item> \<open>cache\<close>: the \<^verbatim>\<open>NodeCache\<close>, each value with the time (in ms) at which it
    expires;
  \<^item> \<open>files\<close>: the files on disk, by path;
  \<^item> \<open>db\<close>: the \<^verbatim>\<open>PdfDocument\<close> collection, in insertion order;
  \<^item> \<open>modelCalls\<close>: the number of calls of the generation model so far (a counter
    the program does not have, kept to state how often the model is called).
\<close>

record state =
  vectorStores :: "string \<rightharpoonup> vectorStore"
  cache :: "string \<rightharpoonup> result \<times> nat"
  files :: "string \<rightharpoonup> string"
  db :: "pdfDocument list"
  modelCalls :: nat

subsection \<open>The query cache\<close>

text \<open>
  \<^verbatim>\<open>new NodeCache({ stdTTL: 3600 })\<close>.  \<^verbatim>\<open>set\<close> stores the value with the expiry
  time \<^verbatim>\<open>Date.now() + 3600 * 1000\<close>; \<^verbatim>\<open>get\<close> treats an entry whose expiry time is
  before \<^verbatim>\<open>Date.now()\<close> as absent and deletes it.
\<close>

definition stdTTL :: nat where
  "stdTTL = 3600"

definition cacheSet ::
  "nat \<Rightarrow> string \<Rightarrow> result \<Rightarrow> (string \<rightharpoonup> result \<times> nat) \<Rightarrow> (string \<rightharpoonup> result \<times> nat)" where
  "cacheSet now key v c = c(key \<mapsto> (v, now + stdTTL * 1000))"

definition cacheGet ::
  "nat \<Rightarrow> string \<Rightarrow> (string \<rightharpoonup> result \<times> nat) \<Rightarrow> result option \<times> (string \<rightharpoonup> result \<times> nat)" where
  "cacheGet now key c =
     (case c key of
        None \<Rightarrow> (None, c)
      | Some (v, t) \<Rightarrow> if t \<noteq> 0 \<and> t < now then (None, c(key := None)) else (Some v, c))"

subsection \<open>Ingestion: \<^verbatim>\<open>processPdf\<close>\<close>

definition uploadsDir :: "env \<Rightarrow> string" where
  "uploadsDir env = path_join (cwd env) ''uploads''"

definition ensureUploadsDirectory :: "env \<Rightarrow> error option" where
  "ensureUploadsDirectory env =
     (case mkdir env (uploadsDir env) of
        None \<Rightarrow> None
      | Some err \<Rightarrow> Some (Error (''Failed to create uploads directory: '' @ message err)))"

text \<open>\<^verbatim>\<open>docs.map((doc, index) => ...)\<close>: the chunks with their first metadata.\<close>

definition initialChunks :: "string \<Rightarrow> string list \<Rightarrow> chunk list" where
  "initialChunks normalizedPath docs =
     map (\<lambda>(index, doc).
            \<lparr>pageContent = doc,
             metadata = \<lparr>source = Some (path_basename normalizedPath),
                         pageNumber = Some (index div 2 + 1),
                         page = None\<rparr>\<rparr>)
         (enumerate 0 docs)"

text \<open>
  The body of the \<^verbatim>\<open>try\<close> block of \<^verbatim>\<open>processPdf\<close>.  It returns the pair
  \<^verbatim>\<open>{documentChunks, pageCount}\<close>; \<open>None\<close> stands for a call that does not return.
\<close>

definition processPdfBody ::
  "env \<Rightarrow> string \<Rightarrow> state \<Rightarrow> ((error + chunk list \<times> nat) \<times> state) option" where
  "processPdfBody env filePath st =
     (case ensureUploadsDirectory env of
        Some e \<Rightarrow> Some (Inl e, st)
      | None \<Rightarrow>
          let normalizedPath = path_normalize filePath;
              uploadsPath = path_normalize (uploadsDir env)
          in if \<not> startsWith normalizedPath uploadsPath
             then Some (Inl (Error ''Invalid file path. Files must be in the uploads directory.''), st)
             else
               (case files st normalizedPath of
                  None \<Rightarrow> Some (Inl (Error (''PDF file not found at path: '' @ normalizedPath)), st)
                | Some buffer \<Rightarrow>
                    (case pdfParse env buffer of
                       Inl e \<Rightarrow> Some (Inl e, st)
                     | Inr None \<Rightarrow> Some (Inl (Error ''PDF parsing resulted in no text content''), st)
                     | Inr (Some data) \<Rightarrow>
                         if pdf_text data = []
                         then Some (Inl (Error ''PDF parsing resulted in no text content''), st)
                         else
                           let docs = createDocuments env (pdf_text data)
                           in (case processChunksInBatches (initialChunks normalizedPath docs) 10 of
                                 None \<Rightarrow> None
                               | Some chunks \<Rightarrow>
                                   (case fromDocuments env chunks of
                                      Inl e \<Rightarrow> Some (Inl e, st)
                                    | Inr vectorStore \<Rightarrow>
                                        Some (Inr (chunks,
                                                   if numpages data \<noteq> 0 then numpages data
                                                   else (length docs + 1) div 2),
                                              st\<lparr>vectorStores :=
                                                   (vectorStores st)
                                                     (path_basename normalizedPath \<mapsto> vectorStore)\<rparr>))))))"

text \<open>The \<^verbatim>\<open>catch\<close> block wraps every error.\<close>

definition processPdf ::
  "env \<Rightarrow> string \<Rightarrow> state \<Rightarrow> ((error + chunk list \<times> nat) \<times> state) option" where
  "processPdf env filePath st =
     (case processPdfBody env filePath st of
        None \<Rightarrow> None
      | Some (Inl e, st') \<Rightarrow>
          Some (Inl (Error (''Failed to process PDF document: '' @ message e)), st')
      | Some (Inr r, st') \<Rightarrow> Some (Inr r, st'))"

subsection \<open>Cleanup: \<^verbatim>\<open>cleanupFile\<close>\<close>

text \<open>
  \<^verbatim>\<open>fs.unlink\<close> throws when the file does not exist; the \<^verbatim>\<open>catch\<close> block logs the
  error and returns, so the \<^verbatim>\<open>Map\<close> is touched only after a successful unlink.
\<close>

definition cleanupFile :: "string \<Rightarrow> state \<Rightarrow> state" where
  "cleanupFile filePath st =
     (let normalizedPath = path_normalize filePath
      in case files st normalizedPath of
           None \<Rightarrow> st
         | Some buffer \<Rightarrow>
             st\<lparr>files := (files st)(normalizedPath := None),
                vectorStores := (vectorStores st)(normalizedPath := None)\<rparr>)"

subsection \<open>Question answering: \<^verbatim>\<open>chatWithPdf\<close>\<close>

text \<open>\<^verbatim>\<open>PdfDocument.findOne({ filename })\<close>.\<close>

definition findOneByFilename :: "pdfDocument list \<Rightarrow> string \<Rightarrow> pdfDocument option" where
  "findOneByFilename docs name = find (\<lambda>d. filename d = name) docs"

text \<open>
  The first block of \<^verbatim>\<open>chatWithPdf\<close>: the vector store of the file, taken from the
  \<^verbatim>\<open>Map\<close>, or rebuilt from the chunks stored in the database, or, when the stored
  document has no chunks, from the file.
\<close>

definition getVectorStore ::
  "env \<Rightarrow> string \<Rightarrow> state \<Rightarrow> ((error + vectorStore) \<times> state) option" where
  "getVectorStore env name st =
     (case vectorStores st name of
        Some vectorStore \<Rightarrow> Some (Inr vectorStore, st)
      | None \<Rightarrow>
          (case findOneByFilename (db st) name of
             None \<Rightarrow> Some (Inl (Error ''PDF document not found in database''), st)
           | Some pdfDoc \<Rightarrow>
               if documentChunks pdfDoc \<noteq> [] then
                 (case fromDocuments env (documentChunks pdfDoc) of
                    Inl e \<Rightarrow> Some (Inl e, st)
                  | Inr vectorStore \<Rightarrow>
                      Some (Inr vectorStore,
                            st\<lparr>vectorStores := (vectorStores st)(name \<mapsto> vectorStore)\<rparr>))
               else
                 (case processPdf env (path_join (uploadsDir env) name) st of
                    None \<Rightarrow> None
                  | Some (Inl e, st') \<Rightarrow> Some (Inl e, st')
                  | Some (Inr (chunks, n), st') \<Rightarrow>
                      (case fromDocuments env chunks of
                         Inl e \<Rightarrow> Some (Inl e, st')
                       | Inr vectorStore \<Rightarrow>
                           Some (Inr vectorStore,
                                 st'\<lparr>vectorStores := (vectorStores st')(name \<mapsto> vectorStore)\<rparr>)))))"

text \<open>Decimal digits of a number, as the template literal prints a length.\<close>

fun showNat :: "nat \<Rightarrow> string" where
  "showNat n =
     (if n < 10 then [''0123456789'' ! n]
      else showNat (n div 10) @ [''0123456789'' ! (n mod 10)])"

declare showNat.simps [simp del]

definition cacheKey :: "string \<Rightarrow> string \<Rightarrow> nat \<Rightarrow> string" where
  "cacheKey name question n = ''pdf_query_'' @ name @ ''_'' @ question @ ''_'' @ showNat n"

text \<open>
  \<^verbatim>\<open>[...new Set(xs)]\<close>: the distinct elements in the order of their first occurrence.
\<close>

definition setAdd :: "'a list \<Rightarrow> 'a \<Rightarrow> 'a list" where
  "setAdd acc x = (if x \<in> set acc then acc else acc @ [x])"

definition newSet :: "'a list \<Rightarrow> 'a list" where
  "newSet xs = foldl setAdd [] xs"

text \<open>
  \<^verbatim>\<open>.sort((a, b) => a - b)\<close> on an array of numbers and \<^verbatim>\<open>undefined\<close>: the numbers
  in ascending order, then every \<^verbatim>\<open>undefined\<close> (the comparison function is not
  called on them).
\<close>

definition sortNumbers :: "nat option list \<Rightarrow> nat option list" where
  "sortNumbers xs = map Some (sort (List.map_filter id xs)) @ filter (\<lambda>x. x = None) xs"

definition extractSourcePages :: "chunk list \<Rightarrow> nat option list" where
  "extractSourcePages retrievedDocs =
     sortNumbers (newSet (map (\<lambda>doc. pageNumber (metadata doc)) retrievedDocs))"

definition extractSources :: "chunk list \<Rightarrow> sourceEntry list" where
  "extractSources retrievedDocs =
     map (\<lambda>doc. \<lparr>sourcePage = pageNumber (metadata doc),
                  sourceContent = take 150 (pageContent doc) @ ''...''\<rparr>) retrievedDocs"

text \<open>
  \<^verbatim>\<open>chatWithPdf(filename, question, chatHistory)\<close>.  \<open>tGet\<close> and \<open>tSet\<close> are
  the readings of \<^verbatim>\<open>Date.now()\<close> inside \<^verbatim>\<open>cache.get\<close> and \<^verbatim>\<open>cache.set\<close>.
  The \<^verbatim>\<open>catch\<close> block rethrows the error it caught.
\<close>

definition chatWithPdf ::
  "env \<Rightarrow> nat \<Rightarrow> nat \<Rightarrow> string \<Rightarrow> string \<Rightarrow> message list \<Rightarrow> state
     \<Rightarrow> ((error + result) \<times> state) option" where
  "chatWithPdf env tGet tSet name question history st =
     (case getVectorStore env name st of
        None \<Rightarrow> None
      | Some (Inl e, st1) \<Rightarrow> Some (Inl e, st1)
      | Some (Inr vectorStore, st1) \<Rightarrow>
          let key = cacheKey name question (length history);
              (cachedResult, c) = cacheGet tGet key (cache st1);
              st2 = st1\<lparr>cache := c\<rparr>
          in (case cachedResult of
                Some r \<Rightarrow> Some (Inr r, st2)
              | None \<Rightarrow>
                  (case similaritySearch env vectorStore question 3 of
                     Inl e \<Rightarrow> Some (Inl e, st2)
                   | Inr retrievedDocs \<Rightarrow>
                       let context = joinWith [CHR 0x0A, CHR 0x0A] (map pageContent retrievedDocs);
                           st3 = st2\<lparr>modelCalls := modelCalls st2 + 1\<rparr>
                       in (case invoke env (modelCalls st2) context question of
                             Inl e \<Rightarrow> Some (Inl e, st3)
                           | Inr response \<Rightarrow>
                               let r = \<lparr>answer = response,
                                        sourcePages = extractSourcePages retrievedDocs,
                                        sources = extractSources retrievedDocs\<rparr>
                               in Some (Inr r, st3\<lparr>cache := cacheSet tSet key r (cache st3)\<rparr>)))))"

subsection \<open>The routes of \<^verbatim>\<open>pdfChat.js\<close>\<close>

text \<open>
  The JSON body of a response: \<^verbatim>\<open>{error}\<close>, the body of the upload route
  \<^verbatim>\<open>{_id, originalName, pageCount, createdAt}\<close>, \<^verbatim>\<open>{success: true}\<close>, and the body
  of the chat route \<^verbatim>\<open>{message, sourcePages, sources, chatHistory}\<close>.
\<close>

datatype body =
    ErrorBody string
  | UploadBody string string nat nat
  | SuccessBody
  | ChatBody string "nat option list" "sourceEntry list" "message list"

record response =
  status :: nat
  json :: body

text \<open>
  \<^verbatim>\<open>req.headers['x-user-id']\<close> is a string, the empty string when the header is
  absent or empty: \<^verbatim>\<open>if (!userId)\<close> treats both alike.
\<close>

definition missing :: "string \<Rightarrow> bool" where
  "missing h = (h = [])"

text \<open>\<^verbatim>\<open>PdfDocument.findOne({ _id: id, userId: userId })\<close>.\<close>

definition findOneById :: "pdfDocument list \<Rightarrow> string \<Rightarrow> string \<Rightarrow> pdfDocument option" where
  "findOneById docs ident uid = find (\<lambda>d. doc_id d = ident \<and> userId d = uid) docs"

text \<open>
  The file that multer has stored before the upload handler runs: \<^verbatim>\<open>req.file.path\<close>,
  \<^verbatim>\<open>req.file.filename\<close> and \<^verbatim>\<open>req.file.originalname\<close>.
\<close>

record uploadedFile =
  upload_path :: string
  upload_filename :: string
  upload_originalname :: string

text \<open>
  \<^verbatim>\<open>router.post('/upload')\<close>.  \<open>newId\<close> and \<open>now\<close> are the \<^verbatim>\<open>_id\<close> and the
  \<^verbatim>\<open>createdAt\<close> default of the created document.  \<^verbatim>\<open>PdfDocument.create\<close> casts
  the chunks to the schema and rejects an empty required string (the message of the
  validation error is shortened to its first words).
\<close>

definition uploadRoute ::
  "env \<Rightarrow> string \<Rightarrow> nat \<Rightarrow> string \<Rightarrow> uploadedFile option \<Rightarrow> state
     \<Rightarrow> (response \<times> state) option" where
  "uploadRoute env newId now userIdHeader file st =
     (case file of
        None \<Rightarrow> Some (\<lparr>status = 400, json = ErrorBody ''No file uploaded''\<rparr>, st)
      | Some f \<Rightarrow>
          if missing userIdHeader
          then Some (\<lparr>status = 400, json = ErrorBody ''User ID is required''\<rparr>,
                     cleanupFile (upload_path f) st)
          else
            (case processPdf env (upload_path f) st of
               None \<Rightarrow> None
             | Some (Inl e, st1) \<Rightarrow>
                 Some (\<lparr>status = 500,
                        json = ErrorBody (if message e = [] then ''Error processing PDF''
                                          else message e)\<rparr>,
                       cleanupFile (upload_path f) st1)
             | Some (Inr (chunks, n), st1) \<Rightarrow>
                 if upload_filename f = [] \<or> upload_originalname f = []
                 then Some (\<lparr>status = 500, json = ErrorBody ''PdfDocument validation failed''\<rparr>,
                            cleanupFile (upload_path f) st1)
                 else
                   let pdfDoc = \<lparr>doc_id = newId, userId = userIdHeader,
                                 filename = upload_filename f, originalName = upload_originalname f,
                                 pageCount = n, documentChunks = map castChunk chunks,
                                 chatHistory = [], createdAt = now\<rparr>
                   in Some (\<lparr>status = 200,
                             json = UploadBody newId (upload_originalname f) n now\<rparr>,
                            st1\<lparr>db := db st1 @ [pdfDoc]\<rparr>)))"

text \<open>\<^verbatim>\<open>router.delete('/:documentId')\<close>.\<close>

definition deleteRoute ::
  "env \<Rightarrow> string \<Rightarrow> string \<Rightarrow> state \<Rightarrow> response \<times> state" where
  "deleteRoute env userIdHeader documentId st =
     (if missing userIdHeader
      then (\<lparr>status = 400, json = ErrorBody ''User ID is required''\<rparr>, st)
      else
        (case findOneById (db st) documentId userIdHeader of
           None \<Rightarrow> (\<lparr>status = 404, json = ErrorBody ''Document not found''\<rparr>, st)
         | Some doc \<Rightarrow>
             let path = path_join (uploadsDir env) (filename doc);
                 st1 = (if files st path \<noteq> None then cleanupFile path st else st)
             in (\<lparr>status = 200, json = SuccessBody\<rparr>,
                 st1\<lparr>db := filter (\<lambda>d. doc_id d \<noteq> doc_id doc) (db st1)\<rparr>)))"

text \<open>
  \<^verbatim>\<open>pdf.save()\<close>: the two pushed messages are validated against
  \<^verbatim>\<open>messageSchema\<close> (\<^verbatim>\<open>content\<close> is required, and an empty string does not
  satisfy \<^verbatim>\<open>required\<close>), then the stored document is replaced.
\<close>

definition validMessage :: "message \<Rightarrow> bool" where
  "validMessage m = (content m \<noteq> [])"

definition save :: "pdfDocument \<Rightarrow> message list \<Rightarrow> state \<Rightarrow> error + state" where
  "save pdf pushed st =
     (if list_all validMessage pushed
      then Inr (st\<lparr>db := map (\<lambda>d. if doc_id d = doc_id pdf then pdf else d) (db st)\<rparr>)
      else Inl (Error ''PdfDocument validation failed''))"

text \<open>
  \<^verbatim>\<open>router.post('/:id/chat')\<close>.  \<open>tUser\<close> and \<open>tAssistant\<close> are the two readings
  of \<^verbatim>\<open>new Date()\<close>.
\<close>

definition chatRoute ::
  "env \<Rightarrow> nat \<Rightarrow> nat \<Rightarrow> nat \<Rightarrow> nat \<Rightarrow> string \<Rightarrow> string \<Rightarrow> string \<Rightarrow> state
     \<Rightarrow> (response \<times> state) option" where
  "chatRoute env tGet tSet tUser tAssistant userIdHeader ident question st =
     (if missing userIdHeader
      then Some (\<lparr>status = 400, json = ErrorBody ''User ID is required''\<rparr>, st)
      else
        (case findOneById (db st) ident userIdHeader of
           None \<Rightarrow> Some (\<lparr>status = 404, json = ErrorBody ''PDF not found''\<rparr>, st)
         | Some pdf \<Rightarrow>
             if files st (path_join (uploadsDir env) (filename pdf)) = None
             then Some (\<lparr>status = 404, json = ErrorBody ''PDF file not found on server''\<rparr>, st)
             else
               (case chatWithPdf env tGet tSet (filename pdf) question (chatHistory pdf) st of
                  None \<Rightarrow> None
                | Some (Inl e, st1) \<Rightarrow>
                    Some (\<lparr>status = 500,
                           json = ErrorBody (if message e = []
                                             then ''Failed to process chat request''
                                             else message e)\<rparr>, st1)
                | Some (Inr r, st1) \<Rightarrow>
                    let userMessage =
                          castMessage \<lparr>role = User, content = question,
                                       messageSourcePages = None, messageSources = None,
                                       timestamp = tUser\<rparr>;
                        assistantMessage =
                          castMessage \<lparr>role = Assistant, content = answer r,
                                       messageSourcePages = Some (sourcePages r),
                                       messageSources = Some (sources r),
                                       timestamp = tAssistant\<rparr>;
                        history = chatHistory pdf @ [userMessage] @ [assistantMessage]
                    in (case save (pdf\<lparr>chatHistory := history\<rparr>)
                               [userMessage, assistantMessage] st1 of
                          Inl e \<Rightarrow>
                            Some (\<lparr>status = 500,
                                   json = ErrorBody (if message e = []
                                                     then ''Failed to process chat request''
                                                     else message e)\<rparr>, st1)
                        | Inr st2 \<Rightarrow>
                            Some (\<lparr>status = 200,
                                   json = ChatBody (answer r) (sourcePages r) (sources r)
                                            history\<rparr>, st2)))))"

subsection \<open>Requests that interleave at the awaits\<close>

text \<open>
  JavaScript runs a request without interruption up to its next \<^verbatim>\<open>await\<close>; while it
  waits, other requests run.  The definitions of this part cut \<^verbatim>\<open>chatWithPdf\<close> at its
  awaits (lines 238, 247, 256, 257, 273 and 290) into steps, and run several chat requests
  by a schedule that says whose step comes next.

  A request: the arguments of the call and its two clock readings.
\<close>

record request =
  rq_name :: string
  rq_question :: string
  rq_history :: "message list"
  rq_tGet :: nat
  rq_tSet :: nat

text \<open>
  Where a request stands:
  \<^item> \<open>Start\<close>: the call has not run yet;
  \<^item> \<open>AwaitFindOne\<close>: the \<^verbatim>\<open>Map\<close> had no vector store, \<^verbatim>\<open>PdfDocument.findOne\<close>
    is awaited (line 238);
  \<^item> \<open>AwaitFromDocuments\<close>: \<^verbatim>\<open>MemoryVectorStore.fromDocuments\<close> on these chunks is
    awaited, an embedding pass is under way (lines 247 and 257);
  \<^item> \<open>AwaitProcessPdf\<close>: \<^verbatim>\<open>processPdf\<close> is awaited (line 256);
  \<^item> \<open>AwaitSimilaritySearch\<close>: the cache lookup has missed and
    \<^verbatim>\<open>similaritySearch\<close> on the vector store of the request is awaited (line 273);
  \<^item> \<open>AwaitInvoke\<close>: \<^verbatim>\<open>chain.invoke\<close> is awaited (line 290); the request holds
    the retrieved chunks and the number of its generation call;
  \<^item> \<open>Returned\<close>, \<open>Thrown\<close>: the call is over.
\<close>

datatype pc =
    Start
  | AwaitFindOne
  | AwaitFromDocuments "chunk list"
  | AwaitProcessPdf
  | AwaitSimilaritySearch vectorStore
  | AwaitInvoke "chunk list" nat
  | Returned result
  | Thrown error

definition requestKey :: "request \<Rightarrow> string" where
  "requestKey rq = cacheKey (rq_name rq) (rq_question rq) (length (rq_history rq))"

text \<open>
  Lines 265 to 273, which run without interruption once \<^verbatim>\<open>vectorStore\<close> is assigned:
  the cache lookup, the return on a hit, the start of the retrieval on a miss.
\<close>

definition afterVectorStore :: "request \<Rightarrow> vectorStore \<Rightarrow> state \<Rightarrow> pc \<times> state" where
  "afterVectorStore rq vectorStore st =
     (let (cachedResult, c) = cacheGet (rq_tGet rq) (requestKey rq) (cache st);
          st2 = st\<lparr>cache := c\<rparr>
      in case cachedResult of
           Some r \<Rightarrow> (Returned r, st2)
         | None \<Rightarrow> (AwaitSimilaritySearch vectorStore, st2))"

text \<open>
  One step of a request, from where it stands up to its next await.  The database is read
  when the await of \<^verbatim>\<open>findOne\<close> ends.  \<^verbatim>\<open>processPdf\<close> is taken as one step: the
  only shared state it reads is the file, which chat requests do not change, and its
  only write, to the \<^verbatim>\<open>Map\<close>, is its last action.  A request that is over stays as it
  is.
\<close>

fun stepChat :: "env \<Rightarrow> request \<Rightarrow> pc \<Rightarrow> state \<Rightarrow> (pc \<times> state) option" where
  "stepChat env rq Start st =
     (case vectorStores st (rq_name rq) of
        Some vectorStore \<Rightarrow> Some (afterVectorStore rq vectorStore st)
      | None \<Rightarrow> Some (AwaitFindOne, st))"
| "stepChat env rq AwaitFindOne st =
     (case findOneByFilename (db st) (rq_name rq) of
        None \<Rightarrow> Some (Thrown (Error ''PDF document not found in database''), st)
      | Some pdfDoc \<Rightarrow>
          if documentChunks pdfDoc \<noteq> []
          then Some (AwaitFromDocuments (documentChunks pdfDoc), st)
          else Some (AwaitProcessPdf, st))"
| "stepChat env rq AwaitProcessPdf st =
     (case processPdf env (path_join (uploadsDir env) (rq_name rq)) st of
        None \<Rightarrow> None
      | Some (Inl e, st') \<Rightarrow> Some (Thrown e, st')
      | Some (Inr (chunks, n), st') \<Rightarrow> Some (AwaitFromDocuments chunks, st'))"
| "stepChat env rq (AwaitFromDocuments chunks) st =
     (case fromDocuments env chunks of
        Inl e \<Rightarrow> Some (Thrown e, st)
      | Inr vectorStore \<Rightarrow>
          Some (afterVectorStore rq vectorStore
                  (st\<lparr>vectorStores := (vectorStores st)(rq_name rq \<mapsto> vectorStore)\<rparr>)))"
| "stepChat env rq (AwaitSimilaritySearch vectorStore) st =
     (case similaritySearch env vectorStore (rq_question rq) 3 of
        Inl e \<Rightarrow> Some (Thrown e, st)
      | Inr retrievedDocs \<Rightarrow>
          Some (AwaitInvoke retrievedDocs (modelCalls st),
                st\<lparr>modelCalls := modelCalls st + 1\<rparr>))"
| "stepChat env rq (AwaitInvoke retrievedDocs n) st =
     (let context = joinWith [CHR 0x0A, CHR 0x0A] (map pageContent retrievedDocs)
      in case invoke env n context (rq_question rq) of
           Inl e \<Rightarrow> Some (Thrown e, st)
         | Inr response \<Rightarrow>
             let r = \<lparr>answer = response,
                      sourcePages = extractSourcePages retrievedDocs,
                      sources = extractSources retrievedDocs\<rparr>
             in Some (Returned r,
                      st\<lparr>cache := cacheSet (rq_tSet rq) (requestKey rq) r (cache st)\<rparr>))"
| "stepChat env rq (Returned r) st = Some (Returned r, st)"
| "stepChat env rq (Thrown e) st = Some (Thrown e, st)"

text \<open>
  A request that runs alone takes its steps one after the other; six steps reach the end
  of every path.  \<open>chatOutcome\<close> reads a result of \<open>chatWithPdf\<close> as the final
  stand of the request.
\<close>

fun runAlone :: "nat \<Rightarrow> env \<Rightarrow> request \<Rightarrow> pc \<Rightarrow> state \<Rightarrow> (pc \<times> state) option" where
  "runAlone 0 env rq pc st = Some (pc, st)"
| "runAlone (Suc k) env rq pc st =
     (case stepChat env rq pc st of
        None \<Rightarrow> None
      | Some (pc', st') \<Rightarrow> runAlone k env rq pc' st')"

definition outcome :: "error + result \<Rightarrow> pc" where
  "outcome x = (case x of Inl e \<Rightarrow> Thrown e | Inr r \<Rightarrow> Returned r)"

definition chatOutcome :: "((error + result) \<times> state) option \<Rightarrow> (pc \<times> state) option" where
  "chatOutcome x = map_option (\<lambda>(y, st'). (outcome y, st')) x"








subsection \<open>A small installation, for concrete runs\<close>

text \<open>
  The server runs in \<^verbatim>\<open>/app\<close>.  The parser returns the bytes of the file as its
  text and reports \<open>pages\<close> pages; the splitter cuts the text at every \<^verbatim>\<open>|\<close>;
  the embedding of a text is its length, and two embeddings are the more similar the
  closer the lengths are; the model answers \<^verbatim>\<open>Re: \<close> followed by the question.
\<close>

definition exampleEnv :: "nat \<Rightarrow> env" where
  "exampleEnv pages =
     \<lparr>cwd = ''/app'',
      mkdir = (\<lambda>dir. None),
      pdfParse = (\<lambda>buffer. Inr (Some \<lparr>pdf_text = buffer, numpages = pages\<rparr>)),
      createDocuments = splitOn (CHR ''|''),
      embedDocuments = (\<lambda>texts. Inr (map (\<lambda>t. [int (length t)]) texts)),
      embedQuery = (\<lambda>q. Inr [int (length q)]),
      similarity = (\<lambda>q v. - \<bar>hd q - hd v\<bar>),
      invoke = (\<lambda>n context question. Inr (''Re: '' @ question))\<rparr>"

text \<open>One uploaded file of four segments; nothing else has happened yet.\<close>

definition exampleState :: state where
  "exampleState =
     \<lparr>vectorStores = Map.empty,
      cache = Map.empty,
      files = [''/app/uploads/1-2.pdf'' \<mapsto> ''a|bb|ccc|dddd''],
      db = [],
      modelCalls = 0\<rparr>"

definition exampleChunks :: "chunk list" where
  "exampleChunks =
     [\<lparr>pageContent = ''a'',
       metadata = \<lparr>source = Some ''1-2.pdf'', pageNumber = Some 1, page = Some 1\<rparr>\<rparr>,
      \<lparr>pageContent = ''bb'',
       metadata = \<lparr>source = Some ''1-2.pdf'', pageNumber = Some 1, page = Some 1\<rparr>\<rparr>,
      \<lparr>pageContent = ''ccc'',
       metadata = \<lparr>source = Some ''1-2.pdf'', pageNumber = Some 2, page = Some 2\<rparr>\<rparr>,
      \<lparr>pageContent = ''dddd'',
       metadata = \<lparr>source = Some ''1-2.pdf'', pageNumber = Some 2, page = Some 2\<rparr>\<rparr>]"

definition exampleStore :: vectorStore where
  "exampleStore = zip exampleChunks [[1], [2], [3], [4]]"

text \<open>
  What the upload route stores for the file: the chunks cast to the schema, which keeps
  \<^verbatim>\<open>metadata.page\<close> and drops \<^verbatim>\<open>metadata.source\<close> and
  \<^verbatim>\<open>metadata.pageNumber\<close>.
\<close>

definition storedChunks :: "chunk list" where
  "storedChunks =
     [\<lparr>pageContent = ''a'', metadata = \<lparr>source = None, pageNumber = None, page = Some 1\<rparr>\<rparr>,
      \<lparr>pageContent = ''bb'', metadata = \<lparr>source = None, pageNumber = None, page = Some 1\<rparr>\<rparr>,
      \<lparr>pageContent = ''ccc'', metadata = \<lparr>source = None, pageNumber = None, page = Some 2\<rparr>\<rparr>,
      \<lparr>pageContent = ''dddd'', metadata = \<lparr>source = None, pageNumber = None, page = Some 2\<rparr>\<rparr>]"

definition exampleDoc :: pdfDocument where
  "exampleDoc =
     \<lparr>doc_id = ''d1'', userId = ''u1'', filename = ''1-2.pdf'', originalName = ''notes.pdf'',
      pageCount = 1, documentChunks = storedChunks, chatHistory = [], createdAt = 5\<rparr>"

text \<open>The state after the upload of the file by user \<^verbatim>\<open>u1\<close>.\<close>

definition uploadedState :: state where
  "uploadedState =
     exampleState\<lparr>vectorStores := [''1-2.pdf'' \<mapsto> exampleStore], db := [exampleDoc]\<rparr>"

text \<open>
  The state after a restart of the server: the database and the files are as they were,
  the \<^verbatim>\<open>Map\<close> of vector stores is empty again (and so is the cache).
\<close>

definition restartedState :: state where
  "restartedState = uploadedState\<lparr>vectorStores := Map.empty\<rparr>"

definition storedStore :: vectorStore where
  "storedStore = zip storedChunks [[1], [2], [3], [4]]"

text \<open>
  The three chunks nearest to the question \<^verbatim>\<open>x_y\<close> (of length 3), from the store built
  at upload time and from the store rebuilt from the database.
\<close>

definition exampleRetrieved :: "chunk list" where
  "exampleRetrieved =
     [\<lparr>pageContent = ''ccc'',
       metadata = \<lparr>source = Some ''1-2.pdf'', pageNumber = Some 2, page = Some 2\<rparr>\<rparr>,
      \<lparr>pageContent = ''bb'',
       metadata = \<lparr>source = Some ''1-2.pdf'', pageNumber = Some 1, page = Some 1\<rparr>\<rparr>,
      \<lparr>pageContent = ''dddd'',
       metadata = \<lparr>source = Some ''1-2.pdf'', pageNumber = Some 2, page = Some 2\<rparr>\<rparr>]"

definition storedRetrieved :: "chunk list" where
  "storedRetrieved =
     [\<lparr>pageContent = ''ccc'', metadata = \<lparr>source = None, pageNumber = None, page = Some 2\<rparr>\<rparr>,
      \<lparr>pageContent = ''bb'', metadata = \<lparr>source = None, pageNumber = None, page = Some 1\<rparr>\<rparr>,
      \<lparr>pageContent = ''dddd'', metadata = \<lparr>source = None, pageNumber = None, page = Some 2\<rparr>\<rparr>]"

definition exampleResult :: result where
  "exampleResult =
     \<lparr>answer = ''Re: x_y'',
      sourcePages = [Some 1, Some 2],
      sources = [\<lparr>sourcePage = Some 2, sourceContent = ''ccc...''\<rparr>,
                 \<lparr>sourcePage = Some 1, sourceContent = ''bb...''\<rparr>,
                 \<lparr>sourcePage = Some 2, sourceContent = ''dddd...''\<rparr>]\<rparr>"

definition rebuiltResult :: result where
  "rebuiltResult =
     \<lparr>answer = ''Re: x_y'',
      sourcePages = [None],
      sources = [\<lparr>sourcePage = None, sourceContent = ''ccc...''\<rparr>,
                 \<lparr>sourcePage = None, sourceContent = ''bb...''\<rparr>,
                 \<lparr>sourcePage = None, sourceContent = ''dddd...''\<rparr>]\<rparr>"

text \<open>The state after the first answer to \<^verbatim>\<open>x_y\<close>, stored in the cache at time \<open>tSet\<close>.\<close>

definition answeredState :: "nat \<Rightarrow> state" where
  "answeredState tSet =
     uploadedState\<lparr>modelCalls := 1,
       cache := [''pdf_query_1-2.pdf_x_y_0'' \<mapsto> (exampleResult, tSet + 3600000)]\<rparr>"


text \<open>The two messages of the first exchange, as stored.\<close>

definition exampleUserMessage :: message where
  "exampleUserMessage =
     \<lparr>role = User, content = ''x_y'', messageSourcePages = Some [], messageSources = None,
      timestamp = 30\<rparr>"

definition exampleAssistantMessage :: message where
  "exampleAssistantMessage =
     \<lparr>role = Assistant, content = ''Re: x_y'', messageSourcePages = Some [Some 1, Some 2],
      messageSources = None, timestamp = 40\<rparr>"










section \<open>Properties\<close>

subsection \<open>The batch loop\<close>

lemma map_enumerate_shift:
  "map (\<lambda>(k, c). g k c) (enumerate n ys) = map (\<lambda>(k, c). g (n + k) c) (enumerate 0 ys)"
  by (rule nth_equalityI) (simp_all add: nth_enumerate_eq)

lemma batchResults_append:
  "batchResults i (xs @ ys) = batchResults i xs @ batchResults (i + length xs) ys"
proof -
  let ?g = "\<lambda>k c. \<lparr>pageContent = pageContent c,
                     metadata = (metadata c)\<lparr>page := Some ((i + k) div 2 + 1)\<rparr>\<rparr>"
  have "map (\<lambda>(k, c). ?g k c) (enumerate (length xs) ys)
        = map (\<lambda>(k, c). ?g (length xs + k) c) (enumerate 0 ys)"
    by (rule map_enumerate_shift)
  then show ?thesis
    by (simp add: batchResults_def enumerate_append_eq add.assoc)
qed

lemma batchResults_Nil: "batchResults i [] = []"
  by (simp add: batchResults_def)

text \<open>
  With a positive batch size the loop ends, and its batches together are one pass over
  the whole array.
\<close>

lemma batchLoop_eq:
  assumes "0 < batchSize"
  shows "batchLoop chunks batchSize i results = Some (results @ batchResults i (drop i chunks))"
proof (induction "length chunks - i" arbitrary: i results rule: less_induct)
  case less
  show ?case
  proof (cases "i < length chunks")
    case True
    let ?b = "slice chunks i (i + batchSize)"
    have step: "batchLoop chunks batchSize i results
                = batchLoop chunks batchSize (i + batchSize) (results @ batchResults i ?b)"
      using True by (subst batchLoop.simps) simp
    have "length chunks - (i + batchSize) < length chunks - i"
      using True assms by arith
    then have ih: "batchLoop chunks batchSize (i + batchSize) (results @ batchResults i ?b)
                = Some ((results @ batchResults i ?b)
                        @ batchResults (i + batchSize) (drop (i + batchSize) chunks))"
      by (rule less)
    have split: "drop i chunks = ?b @ drop (i + batchSize) chunks"
      using append_take_drop_id [of batchSize "drop i chunks"]
      by (simp add: slice_def add.commute)
    have "batchResults i (drop i chunks)
          = batchResults i ?b @ batchResults (i + length ?b) (drop (i + batchSize) chunks)"
      by (subst split) (rule batchResults_append)
    also have "batchResults (i + length ?b) (drop (i + batchSize) chunks)
          = batchResults (i + batchSize) (drop (i + batchSize) chunks)"
    proof (cases "i + batchSize \<le> length chunks")
      case True
      then have "length ?b = batchSize" by (simp add: slice_def)
      then show ?thesis by simp
    next
      case False
      then show ?thesis by (simp add: batchResults_Nil)
    qed
    finally show ?thesis using step ih by simp
  next
    case False
    then show ?thesis by (subst batchLoop.simps) (simp add: batchResults_Nil)
  qed
qed

lemma processChunksInBatches_eq:
  "0 < batchSize \<Longrightarrow> processChunksInBatches chunks batchSize = Some (batchResults 0 chunks)"
  by (simp add: processChunksInBatches_def batchLoop_eq)

lemma length_batchResults: "length (batchResults i cs) = length cs"
  by (simp add: batchResults_def)

lemma length_initialChunks: "length (initialChunks p docs) = length docs"
  by (simp add: initialChunks_def)

lemma nth_batchResults:
  "k < length cs \<Longrightarrow>
   batchResults i cs ! k =
     \<lparr>pageContent = pageContent (cs ! k),
      metadata = (metadata (cs ! k))\<lparr>page := Some ((i + k) div 2 + 1)\<rparr>\<rparr>"
  by (simp add: batchResults_def nth_enumerate_eq)

lemma nth_initialChunks:
  "k < length docs \<Longrightarrow>
   initialChunks p docs ! k =
     \<lparr>pageContent = docs ! k,
      metadata = \<lparr>source = Some (path_basename p), pageNumber = Some (k div 2 + 1),
                  page = None\<rparr>\<rparr>"
  by (simp add: initialChunks_def nth_enumerate_eq)

lemma nth_documentChunks:
  "k < length docs \<Longrightarrow>
   batchResults 0 (initialChunks p docs) ! k =
     \<lparr>pageContent = docs ! k,
      metadata = \<lparr>source = Some (path_basename p), pageNumber = Some (k div 2 + 1),
                  page = Some (k div 2 + 1)\<rparr>\<rparr>"
  by (simp add: nth_batchResults nth_initialChunks length_initialChunks)

lemma documentChunks_pages:
  "map (\<lambda>c. page (metadata c)) (batchResults 0 (initialChunks p docs))
     = map (\<lambda>k. Some (k div 2 + 1)) [0..<length docs]"
  by (rule nth_equalityI)
     (simp_all add: length_batchResults length_initialChunks nth_documentChunks)

lemma documentChunks_pageNumbers:
  "map (\<lambda>c. pageNumber (metadata c)) (batchResults 0 (initialChunks p docs))
     = map (\<lambda>k. Some (k div 2 + 1)) [0..<length docs]"
  by (rule nth_equalityI)
     (simp_all add: length_batchResults length_initialChunks nth_documentChunks)

lemma sorted_half_pages: "sorted (map (\<lambda>k. k div 2 + 1) [0..<n])"
  by (induction n) (auto simp: sorted_append intro: div_le_mono)

subsection \<open>What \<^verbatim>\<open>processPdf\<close> returns\<close>

lemma processPdfBody_chunks:
  assumes "processPdfBody env filePath st = Some (Inr (chunks, n), st')"
  shows "\<exists>docs. chunks = batchResults 0 (initialChunks (path_normalize filePath) docs)"
  using assms
  by (auto simp: processPdfBody_def Let_def processChunksInBatches_eq
           split: option.splits if_splits sum.splits)

lemma processPdf_Inr:
  "processPdf env filePath st = Some (Inr r, st')
     \<longleftrightarrow> processPdfBody env filePath st = Some (Inr r, st')"
  by (auto simp: processPdf_def split: option.splits sum.splits prod.splits)

lemma processPdf_chunks:
  assumes "processPdf env filePath st = Some (Inr (chunks, n), st')"
  shows "\<exists>docs. chunks = batchResults 0 (initialChunks (path_normalize filePath) docs)"
  using assms processPdfBody_chunks by (simp add: processPdf_Inr)

subsection \<open>The small installation, evaluated\<close>

lemma exampleEnv_sel:
  "cwd (exampleEnv n) = ''/app''"
  "mkdir (exampleEnv n) dir = None"
  "pdfParse (exampleEnv n) buffer = Inr (Some \<lparr>pdf_text = buffer, numpages = n\<rparr>)"
  "createDocuments (exampleEnv n) = splitOn (CHR ''|'')"
  "embedDocuments (exampleEnv n) texts = Inr (map (\<lambda>t. [int (length t)]) texts)"
  "embedQuery (exampleEnv n) q = Inr [int (length q)]"
  "similarity (exampleEnv n) qv v = - \<bar>hd qv - hd v\<bar>"
  "invoke (exampleEnv n) k context question = Inr (''Re: '' @ question)"
  by (simp_all add: exampleEnv_def)

lemma exampleState_sel:
  "vectorStores exampleState = Map.empty"
  "cache exampleState = Map.empty"
  "files exampleState = [''/app/uploads/1-2.pdf'' \<mapsto> ''a|bb|ccc|dddd'']"
  "db exampleState = []"
  "modelCalls exampleState = 0"
  by (simp_all add: exampleState_def)

lemma uploadsDir_example: "uploadsDir (exampleEnv n) = ''/app/uploads''"
  by (simp add: uploadsDir_def exampleEnv_sel path_join_def path_normalize_def isAbsolute_def)

lemma normalize_example: "path_normalize ''/app/uploads/1-2.pdf'' = ''/app/uploads/1-2.pdf''"
  by (simp add: path_normalize_def isAbsolute_def)

lemma normalize_uploads: "path_normalize ''/app/uploads'' = ''/app/uploads''"
  by (simp add: path_normalize_def isAbsolute_def)

lemma basename_example: "path_basename ''/app/uploads/1-2.pdf'' = ''1-2.pdf''"
  by (simp add: path_basename_def dropTrailing_def)

lemma example_documentChunks:
  "batchResults 0 (initialChunks ''/app/uploads/1-2.pdf'' [''a'', ''bb'', ''ccc'', ''dddd''])
     = exampleChunks"
  by (simp add: batchResults_def initialChunks_def enumerate_eq_zip basename_example
        exampleChunks_def upt_rec)

lemma fromDocuments_example: "fromDocuments (exampleEnv n) exampleChunks = Inr exampleStore"
  by (simp add: fromDocuments_def exampleEnv_sel exampleStore_def) (simp add: exampleChunks_def)

lemma processPdf_example:
  assumes "files st ''/app/uploads/1-2.pdf'' = Some ''a|bb|ccc|dddd''"
  shows "processPdf (exampleEnv n) ''/app/uploads/1-2.pdf'' st
     = Some (Inr (exampleChunks, if n \<noteq> 0 then n else 2),
             st\<lparr>vectorStores := (vectorStores st)(''1-2.pdf'' \<mapsto> exampleStore)\<rparr>)"
  using assms
  by (simp add: processPdf_def processPdfBody_def ensureUploadsDirectory_def uploadsDir_example
        normalize_example normalize_uploads basename_example startsWith_def Let_def
        exampleEnv_sel processChunksInBatches_eq example_documentChunks fromDocuments_example)

lemma processPdf_exampleState:
  "processPdf (exampleEnv n) ''/app/uploads/1-2.pdf'' exampleState
     = Some (Inr (exampleChunks, if n \<noteq> 0 then n else 2),
             exampleState\<lparr>vectorStores := [''1-2.pdf'' \<mapsto> exampleStore]\<rparr>)"
  by (simp add: processPdf_example exampleState_sel)

subsection \<open>Page numbers in chunk order\<close>

text \<open>
  Claim C9.  For every chunk sequence produced by ingesting a document, the page numbers
  assigned to the chunks are non-decreasing in chunk order: whenever \<^verbatim>\<open>processPdf\<close>
  returns, both page fields of every chunk (\<^verbatim>\<open>pageNumber\<close> and \<^verbatim>\<open>page\<close>) are
  defined, they agree, and read in chunk order they form a sorted list.
\<close>

theorem processPdf_pages_nondecreasing:
  assumes "processPdf env filePath st = Some (Inr (chunks, n), st')"
  shows "\<exists>ps. map (\<lambda>c. pageNumber (metadata c)) chunks = map Some ps
            \<and> map (\<lambda>c. page (metadata c)) chunks = map Some ps
            \<and> sorted ps"
proof -
  from assms obtain docs
    where chunks: "chunks = batchResults 0 (initialChunks (path_normalize filePath) docs)"
    using processPdf_chunks by blast
  let ?ps = "map (\<lambda>k. k div 2 + 1) [0..<length docs]"
  have "map (\<lambda>c. pageNumber (metadata c)) chunks = map Some ?ps"
    by (simp add: chunks documentChunks_pageNumbers)
  moreover have "map (\<lambda>c. page (metadata c)) chunks = map Some ?ps"
    by (simp add: chunks documentChunks_pages)
  moreover have "sorted ?ps"
    by (rule sorted_half_pages)
  ultimately show ?thesis by blast
qed

theorem processPdf_pages_nondecreasing_witness:
  "processPdf (exampleEnv 1) ''/app/uploads/1-2.pdf'' exampleState
     = Some (Inr (exampleChunks, 1),
             exampleState\<lparr>vectorStores := [''1-2.pdf'' \<mapsto> exampleStore]\<rparr>)
   \<and> (\<exists>ps. map (\<lambda>c. pageNumber (metadata c)) exampleChunks = map Some ps
            \<and> map (\<lambda>c. page (metadata c)) exampleChunks = map Some ps
            \<and> sorted ps)"
proof -
  have run: "processPdf (exampleEnv 1) ''/app/uploads/1-2.pdf'' exampleState
     = Some (Inr (exampleChunks, 1),
             exampleState\<lparr>vectorStores := [''1-2.pdf'' \<mapsto> exampleStore]\<rparr>)"
    by (simp add: processPdf_exampleState)
  from processPdf_pages_nondecreasing [OF run] run show ?thesis by blast
qed

lemma processPdfBody_reads_file_only:
  assumes "processPdfBody env filePath st = Some (Inr r, st')"
    and "files st2 (path_normalize filePath) = files st (path_normalize filePath)"
  shows "map_option fst (processPdfBody env filePath st2) = Some (Inr r)"
  using assms
  by (auto simp: processPdfBody_def Let_def split: option.splits if_splits sum.splits)

lemma processPdf_reads_file_only:
  assumes "processPdf env filePath st = Some (Inr r, st')"
    and "files st2 (path_normalize filePath) = files st (path_normalize filePath)"
  shows "map_option fst (processPdf env filePath st2) = Some (Inr r)"
proof -
  from assms(1) have "processPdfBody env filePath st = Some (Inr r, st')"
    by (simp add: processPdf_Inr)
  from processPdfBody_reads_file_only [OF this assms(2)]
  obtain st2' where "processPdfBody env filePath st2 = Some (Inr r, st2')"
    by auto
  then have "processPdf env filePath st2 = Some (Inr r, st2')"
    by (simp add: processPdf_Inr)
  then show ?thesis by simp
qed

subsection \<open>The page heuristic\<close>

text \<open>
  Claim C4, as amended.  During ingestion the chunk at the 0-based position \<open>k\<close> is
  assigned the page number \<open>k div 2 + 1\<close> (two segments per page), in both of its page
  fields, from its position alone: the page count that the extractor reports takes no
  part in it.  The assignment is reproducible: a second run of \<^verbatim>\<open>processPdf\<close> with the
  same collaborators on the same file content returns the same chunks and page count,
  whatever else has changed in the state of the server.
\<close>

theorem processPdf_page_assignment:
  assumes "processPdf env filePath st = Some (Inr (chunks, n), st')"
    and "files st2 (path_normalize filePath) = files st (path_normalize filePath)"
  shows "map (\<lambda>c. pageNumber (metadata c)) chunks
           = map (\<lambda>k. Some (k div 2 + 1)) [0..<length chunks]
       \<and> map (\<lambda>c. page (metadata c)) chunks
           = map (\<lambda>k. Some (k div 2 + 1)) [0..<length chunks]
       \<and> map_option fst (processPdf env filePath st2) = Some (Inr (chunks, n))"
proof -
  from assms(1) obtain docs
    where chunks: "chunks = batchResults 0 (initialChunks (path_normalize filePath) docs)"
    using processPdf_chunks by blast
  have len: "length chunks = length docs"
    by (simp add: chunks length_batchResults length_initialChunks)
  have "map (\<lambda>c. pageNumber (metadata c)) chunks
           = map (\<lambda>k. Some (k div 2 + 1)) [0..<length chunks]"
    unfolding len by (simp add: chunks documentChunks_pageNumbers)
  moreover have "map (\<lambda>c. page (metadata c)) chunks
           = map (\<lambda>k. Some (k div 2 + 1)) [0..<length chunks]"
    unfolding len by (simp add: chunks documentChunks_pages)
  moreover have "map_option fst (processPdf env filePath st2) = Some (Inr (chunks, n))"
    using assms by (rule processPdf_reads_file_only)
  ultimately show ?thesis by blast
qed

theorem processPdf_page_assignment_witness:
  "processPdf (exampleEnv 1) ''/app/uploads/1-2.pdf'' exampleState
     = Some (Inr (exampleChunks, 1),
             exampleState\<lparr>vectorStores := [''1-2.pdf'' \<mapsto> exampleStore]\<rparr>)
   \<and> files (exampleState\<lparr>modelCalls := 7\<rparr>) (path_normalize ''/app/uploads/1-2.pdf'')
       = files exampleState (path_normalize ''/app/uploads/1-2.pdf'')
   \<and> map (\<lambda>c. pageNumber (metadata c)) exampleChunks
       = map (\<lambda>k. Some (k div 2 + 1)) [0..<length exampleChunks]
   \<and> map (\<lambda>c. page (metadata c)) exampleChunks
       = map (\<lambda>k. Some (k div 2 + 1)) [0..<length exampleChunks]
   \<and> map_option fst
         (processPdf (exampleEnv 1) ''/app/uploads/1-2.pdf'' (exampleState\<lparr>modelCalls := 7\<rparr>))
       = Some (Inr (exampleChunks, 1))"
proof -
  have run: "processPdf (exampleEnv 1) ''/app/uploads/1-2.pdf'' exampleState
     = Some (Inr (exampleChunks, 1),
             exampleState\<lparr>vectorStores := [''1-2.pdf'' \<mapsto> exampleStore]\<rparr>)"
    by (simp add: processPdf_exampleState)
  have same: "files (exampleState\<lparr>modelCalls := 7\<rparr>) (path_normalize ''/app/uploads/1-2.pdf'')
       = files exampleState (path_normalize ''/app/uploads/1-2.pdf'')"
    by simp
  from processPdf_page_assignment [OF run same] run same show ?thesis by blast
qed

text \<open>
  The claim as stated, that the page number is scaled against the extractor's reported
  page count, fails: for a file of four segments whose extractor reports one page, the
  third and fourth chunk are put on page 2, and the assignment is the same when the
  extractor reports nine pages.
\<close>

theorem page_assignment_counterexample:
  "processPdf (exampleEnv 1) ''/app/uploads/1-2.pdf'' exampleState
     = Some (Inr (exampleChunks, 1),
             exampleState\<lparr>vectorStores := [''1-2.pdf'' \<mapsto> exampleStore]\<rparr>)
   \<and> processPdf (exampleEnv 9) ''/app/uploads/1-2.pdf'' exampleState
     = Some (Inr (exampleChunks, 9),
             exampleState\<lparr>vectorStores := [''1-2.pdf'' \<mapsto> exampleStore]\<rparr>)
   \<and> map (\<lambda>c. pageNumber (metadata c)) exampleChunks = [Some 1, Some 1, Some 2, Some 2]
   \<and> map (\<lambda>c. page (metadata c)) exampleChunks = [Some 1, Some 1, Some 2, Some 2]"
  by (simp add: processPdf_exampleState) (simp add: exampleChunks_def)

subsection \<open>Frame properties\<close>

lemma processPdfBody_frame:
  assumes "processPdfBody env filePath st = Some (x, st')"
  shows "cache st' = cache st \<and> files st' = files st \<and> db st' = db st
         \<and> modelCalls st' = modelCalls st"
  using assms
  by (auto simp: processPdfBody_def Let_def split: option.splits if_splits sum.splits)

lemma processPdf_frame:
  assumes "processPdf env filePath st = Some (x, st')"
  shows "cache st' = cache st \<and> files st' = files st \<and> db st' = db st
         \<and> modelCalls st' = modelCalls st"
proof -
  from assms obtain y where "processPdfBody env filePath st = Some (y, st')"
    by (auto simp: processPdf_def split: option.splits sum.splits prod.splits)
  then show ?thesis by (rule processPdfBody_frame)
qed

lemma getVectorStore_frame:
  assumes "getVectorStore env name st = Some (x, st')"
  shows "cache st' = cache st \<and> files st' = files st \<and> db st' = db st
         \<and> modelCalls st' = modelCalls st"
  using assms
  by (auto simp: getVectorStore_def split: option.splits if_splits sum.splits prod.splits
           dest: processPdf_frame)

lemma getVectorStore_registered:
  assumes "getVectorStore env name st = Some (Inr vectorStore, st')"
  shows "vectorStores st' name = Some vectorStore"
  using assms
  by (auto simp: getVectorStore_def split: option.splits if_splits sum.splits prod.splits)

lemma getVectorStore_present:
  "vectorStores st name = Some vectorStore \<Longrightarrow>
   getVectorStore env name st = Some (Inr vectorStore, st)"
  by (simp add: getVectorStore_def)

lemma cacheGet_hit:
  "cacheGet now key c = (Some r, c') \<Longrightarrow> c' = c"
  by (auto simp: cacheGet_def split: option.splits if_splits)

subsection \<open>The first exchange of the small installation\<close>

lemma castChunk_example: "map castChunk exampleChunks = storedChunks"
  by (simp add: castChunk_def exampleChunks_def storedChunks_def)

lemma upload_example:
  "uploadRoute (exampleEnv 1) ''d1'' 5 ''u1''
     (Some \<lparr>upload_path = ''/app/uploads/1-2.pdf'', upload_filename = ''1-2.pdf'',
            upload_originalname = ''notes.pdf''\<rparr>) exampleState
   = Some (\<lparr>status = 200, json = UploadBody ''d1'' ''notes.pdf'' 1 5\<rparr>, uploadedState)"
  by (simp add: uploadRoute_def missing_def processPdf_exampleState uploadedState_def
        exampleDoc_def exampleState_sel castChunk_example)

lemma similaritySearch_example:
  "similaritySearch (exampleEnv n) exampleStore ''x_y'' 3 = Inr exampleRetrieved"
  by (simp add: similaritySearch_def exampleEnv_sel exampleStore_def exampleChunks_def
        exampleRetrieved_def)

lemma similaritySearch_stored:
  "similaritySearch (exampleEnv n) storedStore ''x_y'' 3 = Inr storedRetrieved"
  by (simp add: similaritySearch_def exampleEnv_sel storedStore_def storedChunks_def
        storedRetrieved_def)

lemma extractSourcePages_example: "extractSourcePages exampleRetrieved = [Some 1, Some 2]"
  by (simp add: extractSourcePages_def sortNumbers_def newSet_def setAdd_def
        List.map_filter_def exampleRetrieved_def)

lemma extractSourcePages_stored: "extractSourcePages storedRetrieved = [None]"
  by (simp add: extractSourcePages_def sortNumbers_def newSet_def setAdd_def
        List.map_filter_def storedRetrieved_def)

lemma extractSources_example: "extractSources exampleRetrieved = sources exampleResult"
  by (simp add: extractSources_def exampleResult_def exampleRetrieved_def)

lemma extractSources_stored: "extractSources storedRetrieved = sources rebuiltResult"
  by (simp add: extractSources_def rebuiltResult_def storedRetrieved_def)

lemma exampleResult_eq:
  "\<lparr>answer = ''Re: x_y'', sourcePages = extractSourcePages exampleRetrieved,
    sources = extractSources exampleRetrieved\<rparr> = exampleResult"
  by (simp add: extractSourcePages_example extractSources_example exampleResult_def)

lemma rebuiltResult_eq:
  "\<lparr>answer = ''Re: x_y'', sourcePages = extractSourcePages storedRetrieved,
    sources = extractSources storedRetrieved\<rparr> = rebuiltResult"
  by (simp add: extractSourcePages_stored extractSources_stored rebuiltResult_def)

lemma cacheKey_example: "cacheKey ''1-2.pdf'' ''x_y'' 0 = ''pdf_query_1-2.pdf_x_y_0''"
  by (simp add: cacheKey_def showNat.simps)

lemma cacheKey_collision: "cacheKey ''1-2.pdf_x'' ''y'' 0 = ''pdf_query_1-2.pdf_x_y_0''"
  by (simp add: cacheKey_def showNat.simps)

lemma uploadedState_sel:
  "vectorStores uploadedState = [''1-2.pdf'' \<mapsto> exampleStore]"
  "cache uploadedState = Map.empty"
  "files uploadedState = [''/app/uploads/1-2.pdf'' \<mapsto> ''a|bb|ccc|dddd'']"
  "db uploadedState = [exampleDoc]"
  "modelCalls uploadedState = 0"
  by (simp_all add: uploadedState_def exampleState_sel)

lemma restartedState_sel:
  "vectorStores restartedState = Map.empty"
  "cache restartedState = Map.empty"
  "files restartedState = [''/app/uploads/1-2.pdf'' \<mapsto> ''a|bb|ccc|dddd'']"
  "db restartedState = [exampleDoc]"
  "modelCalls restartedState = 0"
  by (simp_all add: restartedState_def uploadedState_sel)

lemma answeredState_sel:
  "vectorStores (answeredState t) = [''1-2.pdf'' \<mapsto> exampleStore]"
  "cache (answeredState t) = [''pdf_query_1-2.pdf_x_y_0'' \<mapsto> (exampleResult, t + 3600000)]"
  "files (answeredState t) = [''/app/uploads/1-2.pdf'' \<mapsto> ''a|bb|ccc|dddd'']"
  "db (answeredState t) = [exampleDoc]"
  "modelCalls (answeredState t) = 1"
  by (simp_all add: answeredState_def uploadedState_sel)


lemma chatWithPdf_uploaded:
  "chatWithPdf (exampleEnv n) tGet tSet ''1-2.pdf'' ''x_y'' [] uploadedState
     = Some (Inr exampleResult, answeredState tSet)"
  by (simp add: chatWithPdf_def getVectorStore_def uploadedState_sel cacheKey_example
        cacheGet_def cacheSet_def stdTTL_def similaritySearch_example exampleEnv_sel
        Let_def exampleResult_eq answeredState_def)

lemma getVectorStore_restarted:
  "getVectorStore (exampleEnv n) ''1-2.pdf'' restartedState
     = Some (Inr storedStore, restartedState\<lparr>vectorStores := [''1-2.pdf'' \<mapsto> storedStore]\<rparr>)"
  by (simp add: getVectorStore_def restartedState_sel findOneByFilename_def exampleDoc_def
        fromDocuments_def exampleEnv_sel storedStore_def)
     (simp add: storedChunks_def)

lemma chatWithPdf_restarted:
  "chatWithPdf (exampleEnv n) tGet tSet ''1-2.pdf'' ''x_y'' [] restartedState
     = Some (Inr rebuiltResult,
             restartedState\<lparr>vectorStores := [''1-2.pdf'' \<mapsto> storedStore], modelCalls := 1,
               cache := [''pdf_query_1-2.pdf_x_y_0'' \<mapsto> (rebuiltResult, tSet + 3600000)]\<rparr>)"
  by (simp add: chatWithPdf_def getVectorStore_restarted restartedState_sel cacheKey_example
        cacheGet_def cacheSet_def stdTTL_def similaritySearch_stored exampleEnv_sel
        Let_def rebuiltResult_eq)

subsection \<open>The chat history and the answer\<close>

text \<open>
  Claim C7.  The answer does not depend on the content of the prior chat history: for two
  histories of equal length and otherwise identical arguments, environment and state
  (cache included), \<^verbatim>\<open>chatWithPdf\<close> returns the same result and leaves the same state;
  the history enters the computation only through its length, in the cache key.
\<close>

theorem chatWithPdf_history_length_only:
  assumes "length history1 = length history2"
  shows "chatWithPdf env tGet tSet name question history1 st
         = chatWithPdf env tGet tSet name question history2 st"
  unfolding chatWithPdf_def assms by (rule refl)

theorem chatWithPdf_history_length_only_witness:
  "length [exampleUserMessage, exampleAssistantMessage]
     = length [exampleAssistantMessage, exampleUserMessage]
   \<and> chatWithPdf (exampleEnv 1) 10 20 ''1-2.pdf'' ''x_y''
         [exampleUserMessage, exampleAssistantMessage] uploadedState
       = chatWithPdf (exampleEnv 1) 10 20 ''1-2.pdf'' ''x_y''
         [exampleAssistantMessage, exampleUserMessage] uploadedState"
proof -
  have len: "length [exampleUserMessage, exampleAssistantMessage]
     = length [exampleAssistantMessage, exampleUserMessage]"
    by simp
  from chatWithPdf_history_length_only [OF len] len show ?thesis by blast
qed

subsection \<open>The order of index resolution and cache lookup\<close>

text \<open>
  Claim C5, as amended.  \<^verbatim>\<open>chatWithPdf\<close> resolves the vector store of the document
  first, on every call (from the \<^verbatim>\<open>Map\<close>, or by building it on a miss there), and
  looks into the cache only afterwards.  When the cache holds a live entry for the key of
  the call, the call fails with the error of the index resolution if that fails, and
  otherwise returns the cached entry, in the state that the index resolution left,
  without retrieval and without generation.
\<close>

theorem chatWithPdf_cache_hit:
  assumes "cacheGet tGet (cacheKey name question (length history)) (cache st) = (Some r, c)"
  shows "chatWithPdf env tGet tSet name question history st
         = (case getVectorStore env name st of
              None \<Rightarrow> None
            | Some (Inl e, st1) \<Rightarrow> Some (Inl e, st1)
            | Some (Inr vectorStore, st1) \<Rightarrow> Some (Inr r, st1))"
proof (cases "getVectorStore env name st")
  case None
  then show ?thesis by (simp add: chatWithPdf_def)
next
  case (Some a)
  obtain x st1 where a: "a = (x, st1)" by (cases a)
  from Some a have frame: "cache st1 = cache st"
    using getVectorStore_frame by blast
  from assms have c: "c = cache st" by (rule cacheGet_hit)
  show ?thesis
    using Some a assms
    by (cases x) (simp_all add: chatWithPdf_def frame c)
qed

text \<open>A lookup within the hour after the first answer was stored finds it.\<close>

lemma cacheGet_answered:
  "tGet \<le> tSet + 3600000 \<Longrightarrow>
   cacheGet tGet ''pdf_query_1-2.pdf_x_y_0'' (cache (answeredState tSet))
     = (Some exampleResult, cache (answeredState tSet))"
  by (simp add: cacheGet_def answeredState_sel)

theorem chatWithPdf_cache_hit_witness:
  "cacheGet 50 (cacheKey ''1-2.pdf'' ''x_y'' (length ([] :: message list)))
       (cache (answeredState 20))
     = (Some exampleResult, cache (answeredState 20))
   \<and> chatWithPdf (exampleEnv 1) 50 60 ''1-2.pdf'' ''x_y'' [] (answeredState 20)
       = Some (Inr exampleResult, answeredState 20)"
proof -
  have hit: "cacheGet 50 (cacheKey ''1-2.pdf'' ''x_y'' (length ([] :: message list)))
       (cache (answeredState 20))
     = (Some exampleResult, cache (answeredState 20))"
    by (simp add: cacheKey_example cacheGet_answered)
  have "getVectorStore (exampleEnv 1) ''1-2.pdf'' (answeredState 20)
          = Some (Inr exampleStore, answeredState 20)"
    by (simp add: getVectorStore_present answeredState_sel)
  with chatWithPdf_cache_hit [OF hit, of "exampleEnv 1" 60] hit show ?thesis
    by simp
qed

text \<open>
  The claim as stated, that a cache hit returns the cached entry before the index is
  resolved, fails.  The first call answers \<^verbatim>\<open>x_y\<close> on the file \<^verbatim>\<open>1-2.pdf\<close> and
  stores the result under the key \<^verbatim>\<open>pdf_query_1-2.pdf_x_y_0\<close>.  A second call, for the
  file name \<^verbatim>\<open>1-2.pdf_x\<close> and the question \<^verbatim>\<open>y\<close>, has the same key, and the
  cache holds a live entry for it; the call resolves the index first, finds neither a
  vector store nor a stored document of that name, and throws.
\<close>

theorem cache_first_counterexample:
  "chatWithPdf (exampleEnv 1) 10 20 ''1-2.pdf'' ''x_y'' [] uploadedState
     = Some (Inr exampleResult, answeredState 20)
   \<and> cacheGet 50 (cacheKey ''1-2.pdf_x'' ''y'' (length ([] :: message list)))
         (cache (answeredState 20))
       = (Some exampleResult, cache (answeredState 20))
   \<and> chatWithPdf (exampleEnv 1) 50 60 ''1-2.pdf_x'' ''y'' [] (answeredState 20)
       = Some (Inl (Error ''PDF document not found in database''), answeredState 20)"
proof (intro conjI)
  show "chatWithPdf (exampleEnv 1) 10 20 ''1-2.pdf'' ''x_y'' [] uploadedState
     = Some (Inr exampleResult, answeredState 20)"
    by (rule chatWithPdf_uploaded)
  show "cacheGet 50 (cacheKey ''1-2.pdf_x'' ''y'' (length ([] :: message list)))
         (cache (answeredState 20))
       = (Some exampleResult, cache (answeredState 20))"
    by (simp add: cacheKey_collision cacheGet_answered)
  show "chatWithPdf (exampleEnv 1) 50 60 ''1-2.pdf_x'' ''y'' [] (answeredState 20)
       = Some (Inl (Error ''PDF document not found in database''), answeredState 20)"
    by (simp add: chatWithPdf_def getVectorStore_def answeredState_sel findOneByFilename_def
        exampleDoc_def)
qed

subsection \<open>Repeating a question within the time to live\<close>

text \<open>
  A call that misses the cache and succeeds leaves the vector store registered, its
  result in the cache with an expiry time one hour after \<open>tSet\<close>, and has called the
  generation model once.
\<close>

lemma chatWithPdf_miss_stored:
  assumes "chatWithPdf env tGet tSet name question history st = Some (Inr r, st')"
    and "fst (cacheGet tGet (cacheKey name question (length history)) (cache st)) = None"
  shows "(\<exists>vectorStore. vectorStores st' name = Some vectorStore)
         \<and> cache st' (cacheKey name question (length history)) = Some (r, tSet + stdTTL * 1000)
         \<and> modelCalls st' = modelCalls st + 1"
proof -
  from assms(1) obtain vectorStore sta
    where g: "getVectorStore env name st = Some (Inr vectorStore, sta)"
    by (auto simp: chatWithPdf_def split: option.splits sum.splits prod.splits)
  from g have frame: "cache sta = cache st" "modelCalls sta = modelCalls st"
    using getVectorStore_frame by blast+
  from g have reg: "vectorStores sta name = Some vectorStore"
    by (rule getVectorStore_registered)
  from assms(2) obtain c
    where cg: "cacheGet tGet (cacheKey name question (length history)) (cache st) = (None, c)"
    by (cases "cacheGet tGet (cacheKey name question (length history)) (cache st)") auto
  show ?thesis
    using assms(1) g frame cg reg
    by (auto simp: chatWithPdf_def Let_def cacheSet_def split: sum.splits)
qed

text \<open>
  Two calls one right after the other: a call that misses the cache and succeeds, then a
  call with the same file name, question and history length whose cache lookup happens at
  most one hour later, in the state that the first call left.
\<close>

lemma chatWithPdf_repeat_at_once:
  assumes "chatWithPdf env tGet tSet name question history st = Some (Inr r, st1)"
    and "fst (cacheGet tGet (cacheKey name question (length history)) (cache st)) = None"
    and "length history' = length history"
    and "tGet' \<le> tSet + 3600 * 1000"
  shows "chatWithPdf env tGet' tSet' name question history' st1 = Some (Inr r, st1)
         \<and> modelCalls st1 = modelCalls st + 1"
proof -
  let ?key = "cacheKey name question (length history)"
  from chatWithPdf_miss_stored [OF assms(1,2)] obtain vectorStore
    where reg: "vectorStores st1 name = Some vectorStore"
      and stored: "cache st1 ?key = Some (r, tSet + stdTTL * 1000)"
      and calls: "modelCalls st1 = modelCalls st + 1"
    by blast
  have g: "getVectorStore env name st1 = Some (Inr vectorStore, st1)"
    using reg by (rule getVectorStore_present)
  have hit: "cacheGet tGet' ?key (cache st1) = (Some r, cache st1)"
    using stored assms(4) by (simp add: cacheGet_def stdTTL_def)
  have "chatWithPdf env tGet' tSet' name question history' st1 = Some (Inr r, st1)"
    by (simp add: chatWithPdf_def g assms(3) hit)
  with calls show ?thesis by simp
qed

subsection \<open>A failing chat request\<close>






subsection \<open>Cleanup and the registered vector store\<close>

lemma isAbsolute_normalize: "isAbsolute p \<Longrightarrow> isAbsolute (path_normalize p)"
  by (simp add: path_normalize_def isAbsolute_def Let_def)

lemma uploadsDir_absolute:
  assumes "isAbsolute (cwd env)"
  shows "isAbsolute (path_normalize (uploadsDir env))"
proof -
  from assms have "isAbsolute (cwd env @ ''/uploads'')"
    by (simp add: isAbsolute_def)
  then have "isAbsolute (path_normalize (cwd env @ ''/uploads''))"
    by (rule isAbsolute_normalize)
  moreover from assms have "uploadsDir env = path_normalize (cwd env @ ''/uploads'')"
    by (simp add: uploadsDir_def path_join_def isAbsolute_def)
  ultimately show ?thesis by (simp add: isAbsolute_normalize)
qed

lemma startsWith_absolute:
  assumes "startsWith s p" and "isAbsolute p"
  shows "isAbsolute s"
proof -
  from assms obtain rest where p: "p = CHR ''/'' # rest"
    by (cases p) (auto simp: isAbsolute_def)
  from assms(1) have "take (Suc (length rest)) s = CHR ''/'' # rest"
    by (simp add: startsWith_def p)
  then show ?thesis
    by (cases s) (auto simp: isAbsolute_def)
qed

lemma basename_no_separator: "CHR ''/'' \<notin> set (path_basename p)"
  by (auto simp: path_basename_def dest: set_takeWhileD)

lemma basename_not_absolute:
  assumes "isAbsolute p"
  shows "path_basename p \<noteq> p"
proof
  assume "path_basename p = p"
  then have "CHR ''/'' \<notin> set p"
    using basename_no_separator [of p] by simp
  with assms show False
    by (cases p) (auto simp: isAbsolute_def)
qed

lemma processPdf_registers:
  assumes "processPdf env filePath st = Some (Inr r, st')"
  shows "startsWith (path_normalize filePath) (path_normalize (uploadsDir env))
         \<and> (\<exists>vectorStore. vectorStores st' (path_basename (path_normalize filePath))
                             = Some vectorStore)"
proof -
  from assms have "processPdfBody env filePath st = Some (Inr r, st')"
    by (simp add: processPdf_Inr)
  then show ?thesis
    by (auto simp: processPdfBody_def Let_def split: option.splits if_splits sum.splits)
qed

lemma cleanupFile_frame:
  "cache (cleanupFile filePath st) = cache st"
  "modelCalls (cleanupFile filePath st) = modelCalls st"
  "db (cleanupFile filePath st) = db st"
  "name \<noteq> path_normalize filePath \<Longrightarrow>
     vectorStores (cleanupFile filePath st) name = vectorStores st name"
  "files (cleanupFile filePath st) (path_normalize filePath) = None"
  by (simp_all add: cleanupFile_def Let_def split: option.splits)

lemma chatWithPdf_registered:
  assumes "vectorStores st name = Some vectorStore"
    and "vectorStores st2 name = Some vectorStore"
    and "cache st2 = cache st"
    and "modelCalls st2 = modelCalls st"
  shows "map_option fst (chatWithPdf env tGet tSet name question history st2)
         = map_option fst (chatWithPdf env tGet tSet name question history st)"
  using assms
  by (simp add: chatWithPdf_def getVectorStore_present Let_def
           split: prod.splits option.splits sum.splits)

text \<open>
  Claim C10.  \<^verbatim>\<open>cleanupFile\<close> does not remove the in-memory vector store of the
  document whose file it deletes.  \<^verbatim>\<open>processPdf\<close> registers the store under the bare
  file name (the base name of the normalized path), \<^verbatim>\<open>cleanupFile\<close> deletes the entry
  under the full normalized path, and the two keys differ, the path being absolute.  So in
  any state in which the registration still stands, the store under the file name is the
  same after \<^verbatim>\<open>cleanupFile\<close> as before, although the file is gone, and a chat for the
  file name answers from it exactly as it would have without the deletion.
\<close>

theorem cleanupFile_keeps_vectorStore:
  assumes "isAbsolute (cwd env)"
    and "processPdf env filePath st0 = Some (Inr r, st1)"
    and "vectorStores st (path_basename (path_normalize filePath))
           = vectorStores st1 (path_basename (path_normalize filePath))"
  shows "\<exists>vectorStore.
           vectorStores st (path_basename (path_normalize filePath)) = Some vectorStore
         \<and> vectorStores (cleanupFile filePath st) (path_basename (path_normalize filePath))
             = Some vectorStore
         \<and> files (cleanupFile filePath st) (path_normalize filePath) = None
         \<and> map_option fst (chatWithPdf env tGet tSet (path_basename (path_normalize filePath))
                              question history (cleanupFile filePath st))
             = map_option fst (chatWithPdf env tGet tSet (path_basename (path_normalize filePath))
                                 question history st)"
proof -
  let ?name = "path_basename (path_normalize filePath)"
  from processPdf_registers [OF assms(2)] obtain vectorStore
    where inside: "startsWith (path_normalize filePath) (path_normalize (uploadsDir env))"
      and reg: "vectorStores st1 ?name = Some vectorStore"
    by blast
  have "isAbsolute (path_normalize filePath)"
    using inside uploadsDir_absolute [OF assms(1)] by (rule startsWith_absolute)
  then have differ: "?name \<noteq> path_normalize filePath"
    by (rule basename_not_absolute)
  have before: "vectorStores st ?name = Some vectorStore"
    using reg assms(3) by simp
  have after: "vectorStores (cleanupFile filePath st) ?name = Some vectorStore"
    using before differ by (simp add: cleanupFile_frame)
  have "map_option fst (chatWithPdf env tGet tSet ?name question history (cleanupFile filePath st))
        = map_option fst (chatWithPdf env tGet tSet ?name question history st)"
    using before after by (rule chatWithPdf_registered) (simp_all add: cleanupFile_frame)
  with before after show ?thesis
    by (simp add: cleanupFile_frame)
qed

theorem cleanupFile_keeps_vectorStore_witness:
  "isAbsolute (cwd (exampleEnv 1))
   \<and> processPdf (exampleEnv 1) ''/app/uploads/1-2.pdf'' exampleState
       = Some (Inr (exampleChunks, 1),
               exampleState\<lparr>vectorStores := [''1-2.pdf'' \<mapsto> exampleStore]\<rparr>)
   \<and> vectorStores uploadedState (path_basename (path_normalize ''/app/uploads/1-2.pdf''))
       = vectorStores (exampleState\<lparr>vectorStores := [''1-2.pdf'' \<mapsto> exampleStore]\<rparr>)
           (path_basename (path_normalize ''/app/uploads/1-2.pdf''))
   \<and> vectorStores uploadedState ''1-2.pdf'' = Some exampleStore
   \<and> vectorStores (cleanupFile ''/app/uploads/1-2.pdf'' uploadedState) ''1-2.pdf''
       = Some exampleStore
   \<and> files (cleanupFile ''/app/uploads/1-2.pdf'' uploadedState) ''/app/uploads/1-2.pdf'' = None
   \<and> map_option fst (chatWithPdf (exampleEnv 1) 10 20 ''1-2.pdf'' ''x_y'' []
                        (cleanupFile ''/app/uploads/1-2.pdf'' uploadedState))
       = Some (Inr exampleResult)"
proof -
  have abs: "isAbsolute (cwd (exampleEnv 1))"
    by (simp add: exampleEnv_sel isAbsolute_def)
  have run: "processPdf (exampleEnv 1) ''/app/uploads/1-2.pdf'' exampleState
       = Some (Inr (exampleChunks, 1),
               exampleState\<lparr>vectorStores := [''1-2.pdf'' \<mapsto> exampleStore]\<rparr>)"
    by (simp add: processPdf_exampleState)
  have same: "vectorStores uploadedState (path_basename (path_normalize ''/app/uploads/1-2.pdf''))
       = vectorStores (exampleState\<lparr>vectorStores := [''1-2.pdf'' \<mapsto> exampleStore]\<rparr>)
           (path_basename (path_normalize ''/app/uploads/1-2.pdf''))"
    by (simp add: uploadedState_sel)
  have bare: "path_basename (path_normalize ''/app/uploads/1-2.pdf'') = ''1-2.pdf''"
    by (simp add: normalize_example basename_example)
  have chat: "map_option fst (chatWithPdf (exampleEnv 1) 10 20 ''1-2.pdf'' ''x_y'' [] uploadedState)
       = Some (Inr exampleResult)"
    by (simp add: chatWithPdf_uploaded)
  from cleanupFile_keeps_vectorStore [OF abs run same, of 10 20 "''x_y''" "[]"]
  obtain vectorStore
    where before: "vectorStores uploadedState ''1-2.pdf'' = Some vectorStore"
      and after: "vectorStores (cleanupFile ''/app/uploads/1-2.pdf'' uploadedState) ''1-2.pdf''
                    = Some vectorStore"
      and gone: "files (cleanupFile ''/app/uploads/1-2.pdf'' uploadedState)
                   ''/app/uploads/1-2.pdf'' = None"
      and answer: "map_option fst (chatWithPdf (exampleEnv 1) 10 20 ''1-2.pdf'' ''x_y'' []
                                     (cleanupFile ''/app/uploads/1-2.pdf'' uploadedState))
                   = map_option fst (chatWithPdf (exampleEnv 1) 10 20 ''1-2.pdf'' ''x_y'' []
                                       uploadedState)"
    unfolding normalize_example basename_example by blast
  from before have "vectorStore = exampleStore"
    by (simp add: uploadedState_sel)
  with before after gone answer chat abs run same show ?thesis
    by simp
qed

lemma path_join_absolute:
  assumes "isAbsolute a"
  shows "isAbsolute (path_join a b)"
proof -
  from assms have "isAbsolute (joinWith ''/'' (filter (\<lambda>s. s \<noteq> []) [a, b]))"
    by (auto simp: isAbsolute_def)
  then show ?thesis
    by (auto simp: path_join_def Let_def isAbsolute_normalize) (simp add: isAbsolute_def)
qed

text \<open>
  The delete route removes the file and the stored document; the vector store of a file
  name that is not itself an absolute path stays registered.
\<close>

lemma deleteRoute_keeps_vectorStore:
  assumes "isAbsolute (cwd env)" and "\<not> isAbsolute name"
  shows "vectorStores (snd (deleteRoute env userIdHeader documentId st)) name
         = vectorStores st name"
proof -
  have dir: "isAbsolute (uploadsDir env)"
    using assms(1) by (simp add: uploadsDir_def path_join_absolute)
  have "name \<noteq> path_normalize (path_join (uploadsDir env) other)" for other
    using assms(2) isAbsolute_normalize [OF path_join_absolute [OF dir, of other]] by auto
  then show ?thesis
    by (auto simp: deleteRoute_def Let_def cleanupFile_frame split: option.splits)
qed

subsection \<open>Source pages\<close>

lemma foldl_setAdd:
  "distinct acc \<Longrightarrow>
   distinct (foldl setAdd acc xs) \<and> set (foldl setAdd acc xs) = set acc \<union> set xs"
  by (induction xs arbitrary: acc) (auto simp: setAdd_def)

lemma newSet_distinct: "distinct (newSet xs)" and newSet_set: "set (newSet xs) = set xs"
  using foldl_setAdd [of "[]" xs] by (simp_all add: newSet_def)

lemma setAdd_Some: "setAdd (map Some acc) (Some a) = map Some (setAdd acc a)"
  by (auto simp: setAdd_def)

lemma foldl_setAdd_Some:
  "foldl setAdd (map Some acc) (map Some xs) = map Some (foldl setAdd acc xs)"
  by (induction xs arbitrary: acc) (simp_all add: setAdd_Some)

lemma newSet_Some: "newSet (map Some xs) = map Some (newSet xs)"
  using foldl_setAdd_Some [of "[]" xs] by (simp add: newSet_def)

lemma sortNumbers_Some: "sortNumbers (map Some ps) = map Some (sort ps)"
  by (simp add: sortNumbers_def List.map_filter_def comp_def)

text \<open>
  When every retrieved chunk has a page number, \<^verbatim>\<open>sourcePages\<close> is the sorted list of
  the distinct page numbers of the retrieved chunks.
\<close>

lemma extractSourcePages_sorted_distinct:
  assumes "map (\<lambda>doc. pageNumber (metadata doc)) retrievedDocs = map Some ps"
  shows "\<exists>qs. extractSourcePages retrievedDocs = map Some qs
              \<and> sorted qs \<and> distinct qs \<and> set qs = set ps"
proof -
  have "extractSourcePages retrievedDocs = map Some (sort (newSet ps))"
    by (simp add: extractSourcePages_def assms newSet_Some sortNumbers_Some)
  then show ?thesis
    by (auto simp: newSet_distinct newSet_set)
qed

text \<open>The retrieved chunks are chunks of the store.\<close>

lemma similaritySearch_subset:
  assumes "similaritySearch env vectorStore query k = Inr retrievedDocs"
  shows "set retrievedDocs \<subseteq> fst ` set vectorStore"
proof -
  from assms obtain q where
    "retrievedDocs = map fst (take k (sort_key (\<lambda>(doc, v). - similarity env q v) vectorStore))"
    by (auto simp: similaritySearch_def split: sum.splits)
  then show ?thesis
    by (auto dest!: in_set_takeD)
qed

text \<open>
  Claim C1.  The claim is that \<^verbatim>\<open>sourcePages\<close> is the deduplicated, ascending list of
  the page numbers of the retrieved chunks, a subset of the page numbers of the stored
  chunks of the document, also when the vector store was rebuilt from the chunks in the
  database.  The run below shows where the code departs from it.  The upload stores the
  four chunks with the pages 1, 1, 2, 2.  With the vector store built at upload time the
  question \<^verbatim>\<open>x_y\<close> is answered with the source pages 1 and 2.  After a restart the
  vector store is rebuilt from the stored chunks, whose metadata has \<^verbatim>\<open>page\<close> but no
  \<^verbatim>\<open>pageNumber\<close>; the same question then retrieves the same three chunks and is
  answered with the single source page \<^verbatim>\<open>undefined\<close>.
\<close>

theorem sourcePages_after_rebuild:
  "uploadRoute (exampleEnv 1) ''d1'' 5 ''u1''
      (Some \<lparr>upload_path = ''/app/uploads/1-2.pdf'', upload_filename = ''1-2.pdf'',
             upload_originalname = ''notes.pdf''\<rparr>) exampleState
     = Some (\<lparr>status = 200, json = UploadBody ''d1'' ''notes.pdf'' 1 5\<rparr>, uploadedState)
   \<and> map (\<lambda>c. page (metadata c)) (documentChunks exampleDoc)
       = [Some 1, Some 1, Some 2, Some 2]
   \<and> map_option fst (chatWithPdf (exampleEnv 1) 10 20 ''1-2.pdf'' ''x_y'' [] uploadedState)
       = Some (Inr exampleResult)
   \<and> sourcePages exampleResult = [Some 1, Some 2]
   \<and> map_option fst (chatWithPdf (exampleEnv 1) 10 20 ''1-2.pdf'' ''x_y'' [] restartedState)
       = Some (Inr rebuiltResult)
   \<and> sourcePages rebuiltResult = [None]"
proof (intro conjI)
  show "uploadRoute (exampleEnv 1) ''d1'' 5 ''u1''
      (Some \<lparr>upload_path = ''/app/uploads/1-2.pdf'', upload_filename = ''1-2.pdf'',
             upload_originalname = ''notes.pdf''\<rparr>) exampleState
     = Some (\<lparr>status = 200, json = UploadBody ''d1'' ''notes.pdf'' 1 5\<rparr>, uploadedState)"
    by (rule upload_example)
  show "map (\<lambda>c. page (metadata c)) (documentChunks exampleDoc)
       = [Some 1, Some 1, Some 2, Some 2]"
    by (simp add: exampleDoc_def storedChunks_def)
  show "map_option fst (chatWithPdf (exampleEnv 1) 10 20 ''1-2.pdf'' ''x_y'' [] uploadedState)
       = Some (Inr exampleResult)"
    by (simp add: chatWithPdf_uploaded)
  show "sourcePages exampleResult = [Some 1, Some 2]"
    by (simp add: exampleResult_def)
  show "map_option fst (chatWithPdf (exampleEnv 1) 10 20 ''1-2.pdf'' ''x_y'' [] restartedState)
       = Some (Inr rebuiltResult)"
    by (simp add: chatWithPdf_restarted)
  show "sourcePages rebuiltResult = [None]"
    by (simp add: rebuiltResult_def)
qed

subsection \<open>The stored chat turns\<close>

lemma castMessage_user:
  "castMessage \<lparr>role = User, content = ''x_y'', messageSourcePages = None,
                messageSources = None, timestamp = 30\<rparr> = exampleUserMessage"
  by (simp add: castMessage_def exampleUserMessage_def)

lemma castMessage_assistant:
  "castMessage \<lparr>role = Assistant, content = answer exampleResult,
                messageSourcePages = Some (sourcePages exampleResult),
                messageSources = Some (sources exampleResult), timestamp = 40\<rparr>
     = exampleAssistantMessage"
  by (simp add: castMessage_def exampleAssistantMessage_def exampleResult_def)

text \<open>
  Claim C6.  The claim is that a successful answer appends two turns to the stored
  history, the user turn with the question and then the assistant turn carrying the
  returned \<^verbatim>\<open>sourcePages\<close> and \<^verbatim>\<open>sources\<close>.  The run below shows where the code
  departs from it.  The chat request for \<^verbatim>\<open>x_y\<close> succeeds and returns three sources;
  two turns are appended in order, and the assistant turn carries the answer and the
  source pages, but the \<^verbatim>\<open>sources\<close> that the route put into the turn are not in the
  stored turn, nor in the history that the response returns: \<^verbatim>\<open>messageSchema\<close> does
  not declare them.
\<close>

theorem chat_turn_without_sources:
  "chatRoute (exampleEnv 1) 10 20 30 40 ''u1'' ''d1'' ''x_y'' uploadedState
     = Some (\<lparr>status = 200,
              json = ChatBody (answer exampleResult) (sourcePages exampleResult)
                       (sources exampleResult)
                       [exampleUserMessage, exampleAssistantMessage]\<rparr>,
             (answeredState 20)
               \<lparr>db := [exampleDoc\<lparr>chatHistory :=
                                     [exampleUserMessage, exampleAssistantMessage]\<rparr>]\<rparr>)
   \<and> sources exampleResult
       = [\<lparr>sourcePage = Some 2, sourceContent = ''ccc...''\<rparr>,
          \<lparr>sourcePage = Some 1, sourceContent = ''bb...''\<rparr>,
          \<lparr>sourcePage = Some 2, sourceContent = ''dddd...''\<rparr>]
   \<and> messageSourcePages exampleAssistantMessage = Some (sourcePages exampleResult)
   \<and> messageSources exampleAssistantMessage = None"
proof (intro conjI)
  have found: "findOneById (db uploadedState) ''d1'' ''u1'' = Some exampleDoc"
    by (simp add: findOneById_def uploadedState_sel exampleDoc_def)
  have onDisk: "files uploadedState (path_join (uploadsDir (exampleEnv 1)) ''1-2.pdf'') \<noteq> None"
    by (simp add: uploadsDir_example uploadedState_sel path_join_def path_normalize_def
          isAbsolute_def)
  have doc: "filename exampleDoc = ''1-2.pdf''" "chatHistory exampleDoc = []"
    "doc_id exampleDoc = ''d1''"
    by (simp_all add: exampleDoc_def)
  have valid: "validMessage exampleUserMessage" "validMessage exampleAssistantMessage"
    by (simp_all add: validMessage_def exampleUserMessage_def exampleAssistantMessage_def)
  show "chatRoute (exampleEnv 1) 10 20 30 40 ''u1'' ''d1'' ''x_y'' uploadedState
     = Some (\<lparr>status = 200,
              json = ChatBody (answer exampleResult) (sourcePages exampleResult)
                       (sources exampleResult)
                       [exampleUserMessage, exampleAssistantMessage]\<rparr>,
             (answeredState 20)
               \<lparr>db := [exampleDoc\<lparr>chatHistory :=
                                     [exampleUserMessage, exampleAssistantMessage]\<rparr>]\<rparr>)"
    using onDisk
    by (simp add: chatRoute_def missing_def found doc chatWithPdf_uploaded Let_def
          castMessage_user castMessage_assistant save_def valid answeredState_sel)
  show "sources exampleResult
       = [\<lparr>sourcePage = Some 2, sourceContent = ''ccc...''\<rparr>,
          \<lparr>sourcePage = Some 1, sourceContent = ''bb...''\<rparr>,
          \<lparr>sourcePage = Some 2, sourceContent = ''dddd...''\<rparr>]"
    by (simp add: exampleResult_def)
  show "messageSourcePages exampleAssistantMessage = Some (sourcePages exampleResult)"
    by (simp add: exampleAssistantMessage_def exampleResult_def)
  show "messageSources exampleAssistantMessage = None"
    by (simp add: exampleAssistantMessage_def)
qed

subsection \<open>Interleaved requests\<close>

text \<open>A request that runs alone does what \<^verbatim>\<open>chatWithPdf\<close> does.\<close>

lemma runAlone_Returned [simp]: "runAlone k env rq (Returned r) st = Some (Returned r, st)"
  by (induction k) simp_all

lemma runAlone_Thrown [simp]: "runAlone k env rq (Thrown e) st = Some (Thrown e, st)"
  by (induction k) simp_all

lemma runAlone_afterVectorStore:
  assumes "getVectorStore env (rq_name rq) st = Some (Inr vectorStore, st1)"
  shows "(case afterVectorStore rq vectorStore st1 of (pc', st') \<Rightarrow> runAlone 2 env rq pc' st')
         = chatOutcome (chatWithPdf env (rq_tGet rq) (rq_tSet rq) (rq_name rq) (rq_question rq)
                          (rq_history rq) st)"
proof -
  obtain cached c
    where cg: "cacheGet (rq_tGet rq) (requestKey rq) (cache st1) = (cached, c)"
    by (cases "cacheGet (rq_tGet rq) (requestKey rq) (cache st1)")
  show ?thesis
  proof (cases cached)
    case (Some r)
    with cg assms show ?thesis
      by (simp add: afterVectorStore_def chatWithPdf_def chatOutcome_def outcome_def
            requestKey_def)
  next
    case None
    show ?thesis
    proof (cases "similaritySearch env vectorStore (rq_question rq) 3")
      case (Inl e)
      with None cg assms show ?thesis
        by (simp add: afterVectorStore_def chatWithPdf_def chatOutcome_def outcome_def
              requestKey_def eval_nat_numeral)
    next
      case (Inr retrievedDocs)
      with None cg assms show ?thesis
        by (simp add: afterVectorStore_def chatWithPdf_def chatOutcome_def outcome_def
              requestKey_def eval_nat_numeral Let_def split: sum.splits)
    qed
  qed
qed

lemma runAlone_outcome [simp]: "runAlone k env rq (outcome y) st = Some (outcome y, st)"
  by (cases y) (simp_all add: outcome_def)

lemma runAlone_add:
  "runAlone (k + m) env rq pc st =
     (case runAlone k env rq pc st of
        None \<Rightarrow> None
      | Some (pc', st') \<Rightarrow> runAlone m env rq pc' st')"
  by (induction k arbitrary: pc st) (auto split: option.splits)

lemma runAlone_chatOutcome:
  "(case chatOutcome x of None \<Rightarrow> None | Some (pc', st') \<Rightarrow> runAlone m env rq pc' st')
     = chatOutcome x"
  by (cases x) (auto simp: chatOutcome_def)

lemma runAlone_afterVectorStore_more:
  assumes "getVectorStore env (rq_name rq) st = Some (Inr vectorStore, st1)"
  shows "(case afterVectorStore rq vectorStore st1 of
            (pc', st') \<Rightarrow> runAlone (2 + m) env rq pc' st')
         = chatOutcome (chatWithPdf env (rq_tGet rq) (rq_tSet rq) (rq_name rq) (rq_question rq)
                          (rq_history rq) st)"
proof -
  obtain pc' st' where a: "afterVectorStore rq vectorStore st1 = (pc', st')"
    by (cases "afterVectorStore rq vectorStore st1")
  let ?chat = "chatOutcome (chatWithPdf env (rq_tGet rq) (rq_tSet rq) (rq_name rq)
                             (rq_question rq) (rq_history rq) st)"
  have two: "runAlone 2 env rq pc' st' = ?chat"
    using runAlone_afterVectorStore [OF assms] a by simp
  have "(case afterVectorStore rq vectorStore st1 of
           (pc', st') \<Rightarrow> runAlone (2 + m) env rq pc' st')
        = runAlone (2 + m) env rq pc' st'"
    by (simp only: a prod.case)
  also have "\<dots> = (case runAlone 2 env rq pc' st' of
                      None \<Rightarrow> None
                    | Some (p, s) \<Rightarrow> runAlone m env rq p s)"
    by (rule runAlone_add)
  also have "\<dots> = (case ?chat of None \<Rightarrow> None | Some (p, s) \<Rightarrow> runAlone m env rq p s)"
    by (simp only: two)
  also have "\<dots> = ?chat"
    by (rule runAlone_chatOutcome)
  finally show ?thesis .
qed

lemma runAlone_chatWithPdf:
  "runAlone 6 env rq Start st
     = chatOutcome (chatWithPdf env (rq_tGet rq) (rq_tSet rq) (rq_name rq) (rq_question rq)
                      (rq_history rq) st)"
proof (cases "vectorStores st (rq_name rq)")
  case (Some vectorStore)
  then have g: "getVectorStore env (rq_name rq) st = Some (Inr vectorStore, st)"
    by (rule getVectorStore_present)
  have "runAlone 6 env rq Start st
        = (case afterVectorStore rq vectorStore st of (pc', st') \<Rightarrow> runAlone (2 + 3) env rq pc' st')"
    using Some by (simp add: eval_nat_numeral split: prod.splits)
  then show ?thesis
    using runAlone_afterVectorStore_more [OF g, of 3] by simp
next
  case None
  show ?thesis
  proof (cases "findOneByFilename (db st) (rq_name rq)")
    case noDoc: None
    with None show ?thesis
      by (simp add: eval_nat_numeral chatWithPdf_def getVectorStore_def chatOutcome_def
            outcome_def)
  next
    case (Some pdfDoc)
    show ?thesis
    proof (cases "documentChunks pdfDoc = []")
      case False
      show ?thesis
      proof (cases "fromDocuments env (documentChunks pdfDoc)")
        case (Inl e)
        with None Some False show ?thesis
          by (simp add: eval_nat_numeral chatWithPdf_def getVectorStore_def chatOutcome_def
                outcome_def)
      next
        case (Inr vectorStore)
        let ?st1 = "st\<lparr>vectorStores := (vectorStores st)(rq_name rq \<mapsto> vectorStore)\<rparr>"
        have g: "getVectorStore env (rq_name rq) st = Some (Inr vectorStore, ?st1)"
          using None Some False Inr by (simp add: getVectorStore_def)
        have "runAlone 6 env rq Start st
              = (case afterVectorStore rq vectorStore ?st1 of
                   (pc', st') \<Rightarrow> runAlone (2 + 1) env rq pc' st')"
          using None Some False Inr by (simp add: eval_nat_numeral split: prod.splits)
        then show ?thesis
          using runAlone_afterVectorStore_more [OF g, of 1] by simp
      qed
    next
      case True
      show ?thesis
      proof (cases "processPdf env (path_join (uploadsDir env) (rq_name rq)) st")
        case diverges: None
        with None Some True show ?thesis
          by (simp add: eval_nat_numeral chatWithPdf_def getVectorStore_def chatOutcome_def)
      next
        case processed: (Some a)
        obtain x st' where a: "a = (x, st')" by (cases a)
        show ?thesis
        proof (cases x)
          case (Inl e)
          with None Some True processed a show ?thesis
            by (simp add: eval_nat_numeral chatWithPdf_def getVectorStore_def chatOutcome_def
                  outcome_def)
        next
          case (Inr b)
          obtain chunks n where b: "b = (chunks, n)" by (cases b)
          show ?thesis
          proof (cases "fromDocuments env chunks")
            case failed: (Inl e)
            with None Some True processed a Inr b show ?thesis
              by (simp add: eval_nat_numeral chatWithPdf_def getVectorStore_def chatOutcome_def
                    outcome_def)
          next
            case built: (Inr vectorStore)
            let ?st1 = "st'\<lparr>vectorStores := (vectorStores st')(rq_name rq \<mapsto> vectorStore)\<rparr>"
            have g: "getVectorStore env (rq_name rq) st = Some (Inr vectorStore, ?st1)"
              using None Some True processed a Inr b built by (simp add: getVectorStore_def)
            have "runAlone 6 env rq Start st
                  = (case afterVectorStore rq vectorStore ?st1 of
                       (pc', st') \<Rightarrow> runAlone (2 + 0) env rq pc' st')"
              using None Some True processed a Inr b built
              by (simp add: eval_nat_numeral split: prod.splits)
            then show ?thesis
              using runAlone_afterVectorStore_more [OF g, of 0] by simp
          qed
        qed
      qed
    qed
  qed
qed

















































end
